theory Spec2Isabelle
  imports Main "HOL-Library.Word"
begin

section \<open>Shared vocabulary of the glTF resource loaders\<close>

text \<open>
  Modelled from the spec: the enumeration \<^verbatim>\<open>ResourceLoaderState\<close>
  (\<^verbatim>\<open>ResourceLoaderState.js\<close>), the lifecycle states of a loader: UNLOADED, LOADING,
  PROCESSING, READY, FAILED and DESTROYED. The loaders use the members \<^verbatim>\<open>UNLOADED\<close>,
  \<^verbatim>\<open>LOADING\<close>, \<^verbatim>\<open>READY\<close>, \<^verbatim>\<open>FAILED\<close> and \<^verbatim>\<open>DESTROYED\<close>.
\<close>

datatype ResourceLoaderState = UNLOADED | LOADING | PROCESSING | READY | FAILED | DESTROYED

text \<open>
  JavaScript exceptions and promise rejection reasons. \<open>RequestError\<close> stands for a
  failure that comes from outside (a fetch or a decode that rejects). \<open>LoaderError\<close> is
  what \<^verbatim>\<open>ResourceLoader.getError\<close> builds.
\<close>

datatype error =
    RuntimeError string
  | TypeError string
  | RangeError string
  | DeveloperError string
  | RequestError string
  | LoaderError string error

text \<open>
  Modelled from the spec: \<^verbatim>\<open>ResourceLoader.getError(error, errorMessage)\<close>
  (\<^verbatim>\<open>ResourceLoader.js\<close>). The spec has the rejection carry "a human-readable context
  message ... without discarding the underlying cause": the result holds both.
\<close>

definition getError :: "error \<Rightarrow> string \<Rightarrow> error" where
  "getError err errorMessage = LoaderError errorMessage err"

fun context_message :: "error \<Rightarrow> string option" where
  "context_message (LoaderError m c) = Some m"
| "context_message _ = None"

fun underlying_cause :: "error \<Rightarrow> error option" where
  "underlying_cause (LoaderError m c) = Some c"
| "underlying_cause _ = None"

text \<open>
  A \<^verbatim>\<open>Resource\<close> is a URL; \<^verbatim>\<open>baseResource.getDerivedResource({url: u})\<close> is kept
  symbolic as \<open>Derived base u\<close>.
\<close>

datatype resource = Resource string | Derived resource string

fun url :: "resource \<Rightarrow> string" where
  "url (Resource u) = u"
| "url (Derived b u) = u"

subsection \<open>Typed arrays over shared ArrayBuffers\<close>

type_synonym byte = "8 word"

text \<open>
  The store of ArrayBuffers: an address gives the bytes of the buffer that lives there.
  A \<^verbatim>\<open>Uint8Array\<close> is a window (buffer address, byte offset, length) into one of them, so
  two typed arrays with the same \<open>ta_buffer\<close> share memory.
\<close>

type_synonym memory = "nat \<Rightarrow> byte list"

record Uint8Array =
  ta_buffer :: nat
  ta_byteOffset :: nat
  ta_length :: nat

definition bytes :: "memory \<Rightarrow> Uint8Array \<Rightarrow> byte list" where
  "bytes mem a = take (ta_length a) (drop (ta_byteOffset a) (mem (ta_buffer a)))"

definition valid_view :: "memory \<Rightarrow> Uint8Array \<Rightarrow> bool" where
  "valid_view mem a = (ta_byteOffset a + ta_length a \<le> length (mem (ta_buffer a)))"

text \<open>
  \<^verbatim>\<open>new Uint8Array(buffer, byteOffset, length)\<close>. An offset that is \<^verbatim>\<open>NaN\<close> or
  \<^verbatim>\<open>undefined\<close> (here \<open>None\<close>) is read as 0, an \<^verbatim>\<open>undefined\<close> length takes the rest of
  the buffer, and a window that leaves the buffer throws a \<^verbatim>\<open>RangeError\<close>.
\<close>

definition new_Uint8Array ::
  "memory \<Rightarrow> nat \<Rightarrow> nat option \<Rightarrow> nat option \<Rightarrow> error + Uint8Array" where
  "new_Uint8Array mem b off len =
     (let n = length (mem b);
          ofs = (case off of None \<Rightarrow> 0 | Some k \<Rightarrow> k)
      in if n < ofs then Inl (RangeError ''Start offset is outside the bounds of the buffer'')
         else (case len of
                 None \<Rightarrow> Inr \<lparr>ta_buffer = b, ta_byteOffset = ofs, ta_length = n - ofs\<rparr>
               | Some k \<Rightarrow>
                   if n < ofs + k then Inl (RangeError ''Invalid typed array length'')
                   else Inr \<lparr>ta_buffer = b, ta_byteOffset = ofs, ta_length = k\<rparr>))"

subsection \<open>The resource cache, seen from a loader\<close>

text \<open>
  The loaders only call the cache (\<^verbatim>\<open>ResourceCache.js\<close>); what it does inside is not
  modelled. Each call is recorded, with the options the loader passes, in the loader's
  \<open>trace\<close>, and the loader object a \<^verbatim>\<open>load...\<close> call returns is named by the request that
  produced it (the cache keeps one loader per key). The \<^verbatim>\<open>gltf\<close> object passed along with
  a request is left out, and a Draco extension object is named by the buffer view it
  points to.
\<close>

datatype cache_request =
    LoadExternalBuffer resource bool
  | LoadEmbeddedBuffer resource nat "Uint8Array option" bool
  | LoadBufferView "nat option" resource resource bool
  | LoadVertexBuffer "nat option" "nat option" string resource resource bool bool
  | LoadIndexBuffer nat "nat option" resource resource bool bool

text \<open>
  What a loader does to the world, in program order: calls on the cache, writes of its
  \<^verbatim>\<open>_state\<close> field, and calls of \<^verbatim>\<open>resolve\<close> / \<^verbatim>\<open>reject\<close> on its deferred.
\<close>

datatype event =
    CacheLoad cache_request
  | CacheUnload cache_request
  | StateSet ResourceLoaderState
  | PromiseResolve
  | PromiseReject error

text \<open>
  Modelled from the spec: the deferred of \<^verbatim>\<open>when.defer()\<close> (\<^verbatim>\<open>ThirdParty/when.js\<close>), "a
  single-resolution promise/future that settles exactly once (to success or failure)":
  later calls of \<^verbatim>\<open>resolve\<close> or \<^verbatim>\<open>reject\<close> leave it as it is.
\<close>

datatype promise_state = Pending | Resolved | Rejected error

text \<open>
  The fields every loader has: \<^verbatim>\<open>_state\<close>, \<^verbatim>\<open>_promise\<close>, the mark that
  \<^verbatim>\<open>destroyObject\<close> leaves on the object, and the trace of its effects.
\<close>

record ResourceLoader =
  state :: ResourceLoaderState
  promise :: promise_state
  destroyed :: bool
  trace :: "event list"

definition set_state ::
  "ResourceLoaderState \<Rightarrow> 'a ResourceLoader_scheme \<Rightarrow> 'a ResourceLoader_scheme" where
  "set_state s l = l\<lparr>state := s, trace := trace l @ [StateSet s]\<rparr>"

definition resolve :: "'a ResourceLoader_scheme \<Rightarrow> 'a ResourceLoader_scheme" where
  "resolve l = l\<lparr>promise := (if promise l = Pending then Resolved else promise l),
                 trace := trace l @ [PromiseResolve]\<rparr>"

definition reject :: "error \<Rightarrow> 'a ResourceLoader_scheme \<Rightarrow> 'a ResourceLoader_scheme" where
  "reject e l = l\<lparr>promise := (if promise l = Pending then Rejected e else promise l),
                  trace := trace l @ [PromiseReject e]\<rparr>"

definition cache_load ::
  "cache_request \<Rightarrow> 'a ResourceLoader_scheme \<Rightarrow> cache_request \<times> 'a ResourceLoader_scheme" where
  "cache_load r l = (r, l\<lparr>trace := trace l @ [CacheLoad r]\<rparr>)"

definition cache_unload ::
  "cache_request \<Rightarrow> 'a ResourceLoader_scheme \<Rightarrow> 'a ResourceLoader_scheme" where
  "cache_unload h l = l\<lparr>trace := trace l @ [CacheUnload h]\<rparr>"

text \<open>
  Modelled from the spec: \<^verbatim>\<open>destroyObject\<close> (\<^verbatim>\<open>Core/destroyObject.js\<close>), which every
  \<^verbatim>\<open>destroy\<close> ends with. The spec names \<^verbatim>\<open>destroy()\<close> and \<^verbatim>\<open>isDestroyed()\<close> as parts of
  the loader contract and says no more; the model follows the documentation the loaders
  carry on these two methods: "Returns true if this object was destroyed; otherwise,
  false" and "Once an object is destroyed, it should not be used; calling any function
  other than isDestroyed will result in a DeveloperError exception". \<^verbatim>\<open>GltfLoader.load\<close>
  relies on it: its continuation asks \<^verbatim>\<open>that.isDestroyed()\<close> to learn that "the loader was
  destroyed before the promise resolved". The object is marked; its data fields stay as
  they are.
\<close>

definition destroyObject :: "'a ResourceLoader_scheme \<Rightarrow> 'a ResourceLoader_scheme" where
  "destroyObject l = l\<lparr>destroyed := True\<rparr>"

text \<open>
  A method call on a loader object: after \<^verbatim>\<open>destroyObject\<close> every method other than
  \<^verbatim>\<open>isDestroyed\<close> throws. Continuations registered on promises are closures, not
  methods, and still run.
\<close>

definition call ::
  "('a ResourceLoader_scheme \<Rightarrow> 'a ResourceLoader_scheme) \<Rightarrow> 'a ResourceLoader_scheme
     \<Rightarrow> error + 'a ResourceLoader_scheme" where
  "call m l =
     (if destroyed l
      then Inl (DeveloperError ''This object was destroyed, i.e., destroy() was called.'')
      else Inr (m l))"

text \<open>
  The outcome a promise is settled with, as seen by the continuations chained on it.
\<close>

datatype 'a outcome = Fulfilled 'a | Failed error

section \<open>GltfBufferViewLoader\<close>

record GltfBufferViewLoader = ResourceLoader +
  bv_gltfResource :: resource
  bv_baseResource :: resource
  bv_buffer_uri :: "string option"
  bv_bufferId :: nat
  bv_byteOffset :: "nat option"
  bv_byteLength :: "nat option"
  bv_bufferLoader :: "cache_request option"
  bv_typedArray :: "Uint8Array option"

text \<open>The constructor, from the buffer view and buffer of the glTF JSON.\<close>

definition GltfBufferViewLoader_new ::
  "resource \<Rightarrow> resource \<Rightarrow> string option \<Rightarrow> nat \<Rightarrow> nat option \<Rightarrow> nat option
     \<Rightarrow> GltfBufferViewLoader" where
  "GltfBufferViewLoader_new gltfResource baseResource uri bufferId byteOffset byteLength =
     \<lparr>state = UNLOADED, promise = Pending, destroyed = False, trace = [],
      bv_gltfResource = gltfResource, bv_baseResource = baseResource,
      bv_buffer_uri = uri, bv_bufferId = bufferId,
      bv_byteOffset = byteOffset, bv_byteLength = byteLength,
      bv_bufferLoader = None, bv_typedArray = None\<rparr>"

definition bv_getBufferLoader ::
  "GltfBufferViewLoader \<Rightarrow> cache_request \<times> GltfBufferViewLoader" where
  "bv_getBufferLoader l =
     (case bv_buffer_uri l of
        Some u \<Rightarrow> cache_load (LoadExternalBuffer (Derived (bv_baseResource l) u) False) l
      | None \<Rightarrow> cache_load (LoadEmbeddedBuffer (bv_gltfResource l) (bv_bufferId l) None False) l)"

definition bv_unload :: "GltfBufferViewLoader \<Rightarrow> GltfBufferViewLoader" where
  "bv_unload l =
     (let l1 = (case bv_bufferLoader l of Some h \<Rightarrow> cache_unload h l | None \<Rightarrow> l)
      in l1\<lparr>bv_bufferLoader := None, bv_typedArray := None\<rparr>)"

text \<open>\<^verbatim>\<open>load\<close> up to the point where it chains its continuations on the buffer's promise.\<close>

definition bv_load :: "GltfBufferViewLoader \<Rightarrow> GltfBufferViewLoader" where
  "bv_load l =
     (let (bufferLoader, l1) = bv_getBufferLoader l;
          l2 = set_state LOADING l1
      in l2\<lparr>bv_bufferLoader := Some bufferLoader\<rparr>)"

text \<open>
  The \<^verbatim>\<open>then\<close> continuation. Its argument is \<^verbatim>\<open>bufferLoader.typedArray\<close> as it is when
  the buffer's promise is fulfilled. A throw leaves the loader as it was and hands the
  error to the \<^verbatim>\<open>otherwise\<close> continuation.
\<close>

definition bv_then ::
  "memory \<Rightarrow> Uint8Array option \<Rightarrow> GltfBufferViewLoader \<Rightarrow> error + GltfBufferViewLoader" where
  "bv_then mem bufferTypedArray l =
     (if state l = DESTROYED then Inr (bv_unload l)
      else (case bufferTypedArray of
              None \<Rightarrow> Inl (TypeError ''Cannot read properties of undefined'')
            | Some p \<Rightarrow>
                (case new_Uint8Array mem (ta_buffer p)
                        (case bv_byteOffset l of
                           None \<Rightarrow> None | Some k \<Rightarrow> Some (ta_byteOffset p + k))
                        (bv_byteLength l) of
                   Inl e \<Rightarrow> Inl e
                 | Inr bufferViewTypedArray \<Rightarrow>
                     Inr (resolve (set_state READY
                            (l\<lparr>bv_typedArray := Some bufferViewTypedArray\<rparr>))))))"

definition bv_otherwise :: "error \<Rightarrow> GltfBufferViewLoader \<Rightarrow> GltfBufferViewLoader" where
  "bv_otherwise err l =
     reject (getError err ''Failed to load buffer view'') (set_state FAILED (bv_unload l))"

text \<open>The chain \<^verbatim>\<open>bufferLoader.promise.then(...).otherwise(...)\<close>, run on an outcome.\<close>

definition bv_settle ::
  "memory \<Rightarrow> Uint8Array option outcome \<Rightarrow> GltfBufferViewLoader \<Rightarrow> GltfBufferViewLoader" where
  "bv_settle mem out l =
     (case out of
        Failed e \<Rightarrow> bv_otherwise e l
      | Fulfilled a \<Rightarrow> (case bv_then mem a l of Inl e \<Rightarrow> bv_otherwise e l | Inr l' \<Rightarrow> l'))"

definition bv_destroy :: "GltfBufferViewLoader \<Rightarrow> GltfBufferViewLoader" where
  "bv_destroy l = destroyObject (set_state DESTROYED (bv_unload l))"

section \<open>The glTF JSON, as far as the loaders read it\<close>

record gltf_buffer =
  buf_uri :: "string option"
  buf_source :: "Uint8Array option"

record gltf_bufferView =
  bview_buffer :: nat
  bview_byteOffset :: "nat option"
  bview_byteLength :: "nat option"
  bview_byteStride :: "nat option"

record gltf_accessor =
  acc_bufferView :: "nat option"
  acc_byteOffset :: "nat option"
  acc_componentType :: nat
  acc_normalized :: "bool option"
  acc_count :: nat
  acc_type :: string

text \<open>
  \<open>gltf_asset\<close> is \<open>None\<close> when the document has no \<^verbatim>\<open>asset\<close> object, and \<open>Some None\<close>
  when the object has no \<^verbatim>\<open>version\<close>. \<open>gltf_bufferViews\<close> is \<open>None\<close> when the document
  has no such array. A document without \<^verbatim>\<open>buffers\<close> or \<^verbatim>\<open>accessors\<close> has the empty list:
  \<^verbatim>\<open>ForEach.buffer\<close> then visits nothing, and reading an accessor throws the same
  \<^verbatim>\<open>TypeError\<close> as an index out of range does one property access later.
\<close>

record gltf =
  gltf_asset :: "string option option"
  gltf_buffers :: "gltf_buffer list"
  gltf_bufferViews :: "gltf_bufferView list option"
  gltf_accessors :: "gltf_accessor list"

text \<open>Reading an array element the way JavaScript does: out of range is \<^verbatim>\<open>undefined\<close>.\<close>

definition at :: "'a list \<Rightarrow> nat \<Rightarrow> 'a option" where
  "at xs i = (if i < length xs then Some (xs ! i) else None)"

text \<open>\<^verbatim>\<open>typedArray.subarray(b, e)\<close> for indices that are not negative: both are clamped.\<close>

definition subarray :: "nat \<Rightarrow> nat \<Rightarrow> 'a list \<Rightarrow> 'a list" where
  "subarray b e xs = drop b (take e xs)"

section \<open>GltfImageLoader\<close>

text \<open>A decoded image is an opaque object, named by a number.\<close>

type_synonym image = nat

text \<open>
  The decoders are outside calls; the call the loader makes is kept:
  \<^verbatim>\<open>loadKTX(typedArray)\<close>, \<^verbatim>\<open>loadCRN(typedArray)\<close> or
  \<^verbatim>\<open>loadImageFromTypedArray({uint8Array, format, flipY})\<close>.
\<close>

datatype decode_call =
    LoadKTX "byte list"
  | LoadCRN "byte list"
  | LoadImageFromTypedArray "byte list" string bool

record GltfImageLoader = ResourceLoader +
  img_gltfResource :: resource
  img_baseResource :: resource
  img_gltf :: "gltf option"
  img_bufferViewId :: "nat option"
  img_uri :: "string option"
  img_bufferViewLoader :: "cache_request option"
  img_image :: "image option"

definition GltfImageLoader_new ::
  "resource \<Rightarrow> resource \<Rightarrow> gltf \<Rightarrow> nat option \<Rightarrow> string option \<Rightarrow> GltfImageLoader" where
  "GltfImageLoader_new gltfResource baseResource g bufferViewId uri =
     \<lparr>state = UNLOADED, promise = Pending, destroyed = False, trace = [],
      img_gltfResource = gltfResource, img_baseResource = baseResource,
      img_gltf = Some g, img_bufferViewId = bufferViewId, img_uri = uri,
      img_bufferViewLoader = None, img_image = None\<rparr>"

definition getMimeTypeFromTypedArray :: "byte list \<Rightarrow> error + string" where
  "getMimeTypeFromTypedArray typedArray =
     (let header = subarray 0 2 typedArray;
          webpHeaderRIFFChars = subarray 0 4 typedArray;
          webpHeaderWEBPChars = subarray 8 12 typedArray
      in if at header 0 = Some 0x42 \<and> at header 1 = Some 0x49 then Inr ''image/bmp''
         else if at header 0 = Some 0x47 \<and> at header 1 = Some 0x49 then Inr ''image/gif''
         else if at header 0 = Some 0xff \<and> at header 1 = Some 0xd8 then Inr ''image/jpeg''
         else if at header 0 = Some 0x89 \<and> at header 1 = Some 0x50 then Inr ''image/png''
         else if at header 0 = Some 0xab \<and> at header 1 = Some 0x4b then Inr ''image/ktx''
         else if at header 0 = Some 0x48 \<and> at header 1 = Some 0x78 then Inr ''image/crn''
         else if at header 0 = Some 0x73 \<and> at header 1 = Some 0x42 then Inr ''image/basis''
         else if at webpHeaderRIFFChars 0 = Some 0x52 \<and>
                 at webpHeaderRIFFChars 1 = Some 0x49 \<and>
                 at webpHeaderRIFFChars 2 = Some 0x46 \<and>
                 at webpHeaderRIFFChars 3 = Some 0x46 \<and>
                 at webpHeaderWEBPChars 0 = Some 0x57 \<and>
                 at webpHeaderWEBPChars 1 = Some 0x45 \<and>
                 at webpHeaderWEBPChars 2 = Some 0x42 \<and>
                 at webpHeaderWEBPChars 3 = Some 0x50 then Inr ''image/webp''
         else Inl (RuntimeError ''Image data does not have valid header''))"

text \<open>
  The decode path chosen for the bytes of a buffer view; a throw of the sniffing leaves
  before any decoder is called.
\<close>

definition loadImageFromBufferTypedArray :: "byte list \<Rightarrow> error + decode_call" where
  "loadImageFromBufferTypedArray typedArray =
     (case getMimeTypeFromTypedArray typedArray of
        Inl e \<Rightarrow> Inl e
      | Inr mimeType \<Rightarrow>
          if mimeType = ''image/ktx'' then Inr (LoadKTX typedArray)
          else if mimeType = ''image/crn'' then Inr (LoadCRN typedArray)
          else Inr (LoadImageFromTypedArray typedArray mimeType False))"

definition img_unload :: "GltfImageLoader \<Rightarrow> GltfImageLoader" where
  "img_unload l =
     (let l1 = (case img_bufferViewLoader l of Some h \<Rightarrow> cache_unload h l | None \<Rightarrow> l)
      in l1\<lparr>img_bufferViewLoader := None, img_uri := None, img_image := None,
             img_gltf := None\<rparr>)"

definition handleError :: "error \<Rightarrow> string \<Rightarrow> GltfImageLoader \<Rightarrow> GltfImageLoader" where
  "handleError err errorMessage l =
     reject (getError err errorMessage) (set_state FAILED (img_unload l))"

text \<open>\<^verbatim>\<open>loadFromBufferView\<close> up to the point where it chains its continuations.\<close>

definition loadFromBufferView :: "GltfImageLoader \<Rightarrow> GltfImageLoader" where
  "loadFromBufferView l =
     (let (bufferViewLoader, l1) =
            cache_load (LoadBufferView (img_bufferViewId l) (img_gltfResource l)
                          (img_baseResource l) False) l;
          l2 = set_state LOADING l1
      in l2\<lparr>img_bufferViewLoader := Some bufferViewLoader\<rparr>)"

text \<open>
  The outer \<^verbatim>\<open>then\<close> of \<^verbatim>\<open>loadFromBufferView\<close>; its argument is the content of
  \<^verbatim>\<open>bufferViewLoader.typedArray\<close>. It returns the decode it started, if any.
\<close>

definition img_then_bufferView ::
  "byte list option \<Rightarrow> GltfImageLoader \<Rightarrow> error + decode_call option \<times> GltfImageLoader" where
  "img_then_bufferView typedArray l =
     (if state l = DESTROYED then Inr (None, img_unload l)
      else (case typedArray of
              None \<Rightarrow> Inl (TypeError ''Cannot read properties of undefined'')
            | Some a \<Rightarrow>
                (case loadImageFromBufferTypedArray a of
                   Inl e \<Rightarrow> Inl e
                 | Inr d \<Rightarrow> Inr (Some d, l))))"

text \<open>
  The continuation that receives the decoded image: the inner \<^verbatim>\<open>then\<close> of
  \<^verbatim>\<open>loadFromBufferView\<close>, and the \<^verbatim>\<open>then\<close> of \<^verbatim>\<open>loadFromUri\<close>, which has the same body.
\<close>

definition img_then_image :: "image \<Rightarrow> GltfImageLoader \<Rightarrow> GltfImageLoader" where
  "img_then_image im l =
     (if state l = DESTROYED then img_unload l
      else resolve (set_state READY ((img_unload l)\<lparr>img_image := Some im\<rparr>)))"

definition img_otherwise_bufferView :: "error \<Rightarrow> GltfImageLoader \<Rightarrow> GltfImageLoader" where
  "img_otherwise_bufferView err l = handleError err ''Failed to load embedded image'' l"

text \<open>
  \<^verbatim>\<open>loadFromUri\<close> sets the state and starts the fetch or decode of the derived resource
  (\<^verbatim>\<open>loadImageFromUri\<close>, an outside call that leaves the loader alone). The \<^verbatim>\<open>otherwise\<close>
  continuation keeps the local \<^verbatim>\<open>uri\<close> read before.
\<close>

definition loadFromUri :: "GltfImageLoader \<Rightarrow> GltfImageLoader" where
  "loadFromUri l = set_state LOADING l"

definition img_otherwise_uri :: "string option \<Rightarrow> error \<Rightarrow> GltfImageLoader \<Rightarrow> GltfImageLoader" where
  "img_otherwise_uri uri err l =
     handleError err
       (''Failed to load image:'' @ (case uri of Some u \<Rightarrow> u | None \<Rightarrow> ''undefined'')) l"

definition img_load :: "GltfImageLoader \<Rightarrow> GltfImageLoader" where
  "img_load l = (if img_bufferViewId l \<noteq> None then loadFromBufferView l else loadFromUri l)"

definition img_destroy :: "GltfImageLoader \<Rightarrow> GltfImageLoader" where
  "img_destroy l = destroyObject (set_state DESTROYED (img_unload l))"

section \<open>GltfJsonLoader\<close>

text \<open>
  \<open>json_bufferLoader\<close> is the property \<^verbatim>\<open>_bufferLoader\<close>, which the constructor does not
  create and only \<^verbatim>\<open>unload\<close> writes; \<open>json_bufferLoaders\<close> is \<^verbatim>\<open>_bufferLoaders\<close>.
\<close>

record GltfJsonLoader = ResourceLoader +
  json_gltfResource :: resource
  json_baseResource :: resource
  json_keepResident :: bool
  json_gltf :: "gltf option"
  json_bufferLoaders :: "cache_request list"
  json_bufferLoader :: "cache_request list option"

definition GltfJsonLoader_new :: "resource \<Rightarrow> resource \<Rightarrow> bool \<Rightarrow> GltfJsonLoader" where
  "GltfJsonLoader_new gltfResource baseResource keepResident =
     \<lparr>state = UNLOADED, promise = Pending, destroyed = False, trace = [],
      json_gltfResource = gltfResource, json_baseResource = baseResource,
      json_keepResident = keepResident, json_gltf = None,
      json_bufferLoaders = [], json_bufferLoader = None\<rparr>"

definition json_unload :: "GltfJsonLoader \<Rightarrow> GltfJsonLoader" where
  "json_unload l =
     (let l1 = foldl (\<lambda>a bufferLoader. cache_unload bufferLoader a) l (json_bufferLoaders l)
      in l1\<lparr>json_bufferLoader := Some [], json_gltf := None\<rparr>)"

definition json_load :: "GltfJsonLoader \<Rightarrow> GltfJsonLoader" where
  "json_load l = set_state LOADING l"

text \<open>
  The first \<^verbatim>\<open>then\<close>, on the fetched bytes: it returns the bytes it hands to
  \<^verbatim>\<open>processGltf\<close>, or nothing when the loader was destroyed.
\<close>

definition json_then_fetched ::
  "byte list \<Rightarrow> GltfJsonLoader \<Rightarrow> byte list option \<times> GltfJsonLoader" where
  "json_then_fetched arrayBuffer l =
     (if state l = DESTROYED then (None, json_unload l) else (Some arrayBuffer, l))"

text \<open>
  The loop of \<^verbatim>\<open>upgradeVersion\<close> over the buffers (\<^verbatim>\<open>ForEach.buffer\<close>): every buffer with
  no source yet and a uri is requested from the cache and pushed on \<^verbatim>\<open>_bufferLoaders\<close>.
\<close>

fun upgradeVersion_buffers :: "gltf_buffer list \<Rightarrow> GltfJsonLoader \<Rightarrow> GltfJsonLoader" where
  "upgradeVersion_buffers [] l = l"
| "upgradeVersion_buffers (b # bs) l =
     (case buf_uri b of
        None \<Rightarrow> upgradeVersion_buffers bs l
      | Some u \<Rightarrow>
          if buf_source b = None
          then (let (bufferLoader, l1) =
                      cache_load (LoadExternalBuffer (Derived (json_baseResource l) u) False) l
                in upgradeVersion_buffers bs
                     (l1\<lparr>json_bufferLoaders := json_bufferLoaders l1 @ [bufferLoader]\<rparr>))
          else upgradeVersion_buffers bs l)"

text \<open>\<^verbatim>\<open>upgradeVersion\<close> up to the point where it waits for the buffers.\<close>

definition upgradeVersion :: "gltf \<Rightarrow> GltfJsonLoader \<Rightarrow> error + GltfJsonLoader" where
  "upgradeVersion g l =
     (case gltf_asset g of
        None \<Rightarrow> Inl (TypeError ''Cannot read properties of undefined'')
      | Some version \<Rightarrow>
          if version = Some ''2.0'' then Inr l
          else Inr (upgradeVersion_buffers (gltf_buffers g) l))"

text \<open>
  What runs once the requested buffers have arrived: each typed array is stored as the
  source of its buffer, then \<^verbatim>\<open>updateVersion\<close> (third-party, a parameter here)
  transforms the document. The loader is not an argument: nothing here touches it.
\<close>

fun store_sources :: "Uint8Array list \<Rightarrow> gltf_buffer list \<Rightarrow> gltf_buffer list" where
  "store_sources ts [] = []"
| "store_sources [] (b # bs) = b # bs"
| "store_sources (t # ts) (b # bs) =
     (if buf_source b = None \<and> buf_uri b \<noteq> None
      then b\<lparr>buf_source := Some t\<rparr> # store_sources ts bs
      else b # store_sources (t # ts) bs)"

definition upgradeVersion_then :: "(gltf \<Rightarrow> gltf) \<Rightarrow> Uint8Array list \<Rightarrow> gltf \<Rightarrow> gltf" where
  "upgradeVersion_then updateVersion typedArrays g =
     updateVersion (g\<lparr>gltf_buffers := store_sources typedArrays (gltf_buffers g)\<rparr>)"

fun loadEmbeddedBuffers_from ::
  "nat \<Rightarrow> gltf_buffer list \<Rightarrow> GltfJsonLoader \<Rightarrow> GltfJsonLoader" where
  "loadEmbeddedBuffers_from bufferId [] l = l"
| "loadEmbeddedBuffers_from bufferId (b # bs) l =
     (case buf_source b of
        None \<Rightarrow> loadEmbeddedBuffers_from (Suc bufferId) bs l
      | Some source \<Rightarrow>
          if buf_uri b = None
          then (let (bufferLoader, l1) =
                      cache_load (LoadEmbeddedBuffer (json_gltfResource l) bufferId
                                    (Some source) (json_keepResident l)) l
                in loadEmbeddedBuffers_from (Suc bufferId) bs
                     (l1\<lparr>json_bufferLoaders := json_bufferLoaders l1 @ [bufferLoader]\<rparr>))
          else loadEmbeddedBuffers_from (Suc bufferId) bs l)"

definition loadEmbeddedBuffers :: "gltf \<Rightarrow> GltfJsonLoader \<Rightarrow> GltfJsonLoader" where
  "loadEmbeddedBuffers g l = loadEmbeddedBuffers_from 0 (gltf_buffers g) l"

text \<open>
  The second \<^verbatim>\<open>then\<close>: its argument is the document \<^verbatim>\<open>processGltf\<close> resolved with, or
  \<^verbatim>\<open>undefined\<close> when the first one returned early.
\<close>

definition json_then_processed :: "gltf option \<Rightarrow> GltfJsonLoader \<Rightarrow> GltfJsonLoader" where
  "json_then_processed g l =
     (if state l = DESTROYED then json_unload l
      else resolve (set_state READY (l\<lparr>json_gltf := g\<rparr>)))"

definition json_otherwise :: "error \<Rightarrow> GltfJsonLoader \<Rightarrow> GltfJsonLoader" where
  "json_otherwise err l =
     (let l1 = set_state FAILED (json_unload l);
          errorMessage = ''Failed to load glTF: '' @ url (json_gltfResource l1)
      in reject (getError err errorMessage) l1)"

definition json_destroy :: "GltfJsonLoader \<Rightarrow> GltfJsonLoader" where
  "json_destroy l = destroyObject (set_state DESTROYED (json_unload l))"

section \<open>GltfDracoLoader\<close>

text \<open>
  Decoded data is an opaque object, named by a number. A decode promise is a settled
  promise, given by its outcome; \<^verbatim>\<open>when.resolve()\<close> is fulfilled with \<^verbatim>\<open>undefined\<close>.
\<close>

type_synonym decoded = nat

type_synonym decode_promise = "decoded option outcome"

definition when_resolve :: decode_promise where
  "when_resolve = Fulfilled None"

record GltfDracoLoader = ResourceLoader +
  draco_gltfResource :: resource
  draco_baseResource :: resource
  draco_gltf :: "gltf option"
  draco_bufferView :: "nat option"
  draco_bufferViewLoader :: "cache_request option"
  draco_bufferViewTypedArray :: "Uint8Array option"
  draco_decodePromise :: "decode_promise option"
  draco_decodedData :: "decoded option"

definition GltfDracoLoader_new ::
  "resource \<Rightarrow> resource \<Rightarrow> gltf \<Rightarrow> nat option \<Rightarrow> GltfDracoLoader" where
  "GltfDracoLoader_new gltfResource baseResource g bufferView =
     \<lparr>state = UNLOADED, promise = Pending, destroyed = False, trace = [],
      draco_gltfResource = gltfResource, draco_baseResource = baseResource,
      draco_gltf = Some g, draco_bufferView = bufferView,
      draco_bufferViewLoader = None, draco_bufferViewTypedArray = None,
      draco_decodePromise = None, draco_decodedData = None\<rparr>"

definition draco_unload :: "GltfDracoLoader \<Rightarrow> GltfDracoLoader" where
  "draco_unload l =
     (let l1 = (case draco_bufferViewLoader l of Some h \<Rightarrow> cache_unload h l | None \<Rightarrow> l)
      in l1\<lparr>draco_bufferViewLoader := None, draco_bufferViewTypedArray := None,
             draco_decodedData := None, draco_gltf := None\<rparr>)"

definition draco_handleError :: "error \<Rightarrow> GltfDracoLoader \<Rightarrow> GltfDracoLoader" where
  "draco_handleError err l =
     reject (getError err ''Failed to load Draco'') (set_state FAILED (draco_unload l))"

text \<open>\<^verbatim>\<open>load\<close> up to the point where it chains its continuations.\<close>

definition draco_load :: "GltfDracoLoader \<Rightarrow> GltfDracoLoader" where
  "draco_load l =
     (let (bufferViewLoader, l1) =
            cache_load (LoadBufferView (draco_bufferView l) (draco_gltfResource l)
                          (draco_baseResource l) False) l;
          l2 = set_state LOADING l1
      in l2\<lparr>draco_bufferViewLoader := Some bufferViewLoader\<rparr>)"

text \<open>
  The \<^verbatim>\<open>then\<close> of \<^verbatim>\<open>load\<close>; its argument is \<^verbatim>\<open>bufferViewLoader.typedArray\<close>.
\<close>

definition draco_then_bufferView ::
  "Uint8Array option \<Rightarrow> GltfDracoLoader \<Rightarrow> GltfDracoLoader" where
  "draco_then_bufferView typedArray l =
     (if state l = DESTROYED then draco_unload l
      else l\<lparr>draco_bufferViewTypedArray := typedArray\<rparr>)"

text \<open>The \<^verbatim>\<open>then\<close> chained on the decode promise in \<^verbatim>\<open>update\<close>.\<close>

definition draco_then_decoded :: "decoded option \<Rightarrow> GltfDracoLoader \<Rightarrow> GltfDracoLoader" where
  "draco_then_decoded decodedData l =
     (if state l = DESTROYED then draco_unload l
      else resolve (set_state READY ((draco_unload l)\<lparr>draco_decodedData := decodedData\<rparr>)))"

text \<open>
  The chain \<^verbatim>\<open>decodePromise.then(...).otherwise(...)\<close> of \<^verbatim>\<open>update\<close>, run on the outcome
  of the decode promise.
\<close>

definition draco_decode_settles :: "decode_promise \<Rightarrow> GltfDracoLoader \<Rightarrow> GltfDracoLoader" where
  "draco_decode_settles p l =
     (case p of
        Fulfilled decodedData \<Rightarrow> draco_then_decoded decodedData l
      | Failed e \<Rightarrow> draco_handleError e l)"

text \<open>
  The body of \<^verbatim>\<open>update\<close> from its local \<^verbatim>\<open>decodePromise\<close> on, which is \<open>None\<close> when no
  task could be scheduled. \<^verbatim>\<open>update\<close> itself sets it to \<^verbatim>\<open>when.resolve()\<close>, a promise that
  is fulfilled already: \<^verbatim>\<open>when.js\<close> calls the continuations chained on a settled promise
  at once, so they run inside \<^verbatim>\<open>update\<close>, before the chained promise is stored in
  \<^verbatim>\<open>_decodePromise\<close>.
\<close>

definition draco_update_with ::
  "decode_promise option \<Rightarrow> GltfDracoLoader \<Rightarrow> GltfDracoLoader" where
  "draco_update_with decodePromise l =
     (if draco_bufferViewTypedArray l = None then l
      else if draco_decodePromise l \<noteq> None then l
      else (case decodePromise of
              None \<Rightarrow> l
            | Some p \<Rightarrow> (draco_decode_settles p l)\<lparr>draco_decodePromise := Some p\<rparr>))"

definition draco_update :: "GltfDracoLoader \<Rightarrow> GltfDracoLoader" where
  "draco_update l = draco_update_with (Some when_resolve) l"

definition draco_destroy :: "GltfDracoLoader \<Rightarrow> GltfDracoLoader" where
  "draco_destroy l = destroyObject (set_state DESTROYED (draco_unload l))"

section \<open>Public query \<^verbatim>\<open>isDestroyed\<close>\<close>

text \<open>
  Each loader's prototype has \<^verbatim>\<open>isDestroyed = function () { return false; }\<close>. A call
  \<^verbatim>\<open>loader.isDestroyed()\<close> finds the property \<^verbatim>\<open>destroyObject\<close> put on the object itself,
  if any, before it finds the prototype's.
\<close>

definition prototype_isDestroyed :: "'a ResourceLoader_scheme \<Rightarrow> bool" where
  "prototype_isDestroyed l = False"

definition isDestroyed :: "'a ResourceLoader_scheme \<Rightarrow> bool" where
  "isDestroyed l = (if destroyed l then True else prototype_isDestroyed l)"

section \<open>GltfLoader: vertex attributes and indices\<close>

record GltfLoader =
  gl_gltfResource :: resource
  gl_baseResource :: resource
  gl_asynchronous :: bool

text \<open>
  \<^verbatim>\<open>new VertexAttribute()\<close> and \<^verbatim>\<open>new Indices()\<close> (\<^verbatim>\<open>ModelComponents.js\<close>), as records
  of the fields the loader assigns. \<open>None\<close> is \<^verbatim>\<open>undefined\<close>.
\<close>

record VertexAttribute =
  va_semantic :: string
  va_constantValue :: "nat option"
  va_byteOffset :: "nat option"
  va_byteStride :: "nat option"
  va_componentType :: nat
  va_normalized :: "bool option"
  va_count :: nat
  va_type :: string
  va_cacheResource :: "cache_request option"

record Indices =
  ind_constantValue :: "nat option"
  ind_indexDatatype :: nat
  ind_count :: nat
  ind_cacheResource :: "cache_request option"

text \<open>
  The functions below return the calls they made on the cache, in order, and either the
  error they threw or their result.
\<close>

definition loadVertexBuffer ::
  "GltfLoader \<Rightarrow> gltf \<Rightarrow> nat \<Rightarrow> string \<Rightarrow> nat option
     \<Rightarrow> event list \<times> (error + cache_request option)" where
  "loadVertexBuffer loader g accessorId semantic draco =
     (case at (gltf_accessors g) accessorId of
        None \<Rightarrow> ([], Inl (TypeError ''Cannot read properties of undefined''))
      | Some accessor \<Rightarrow>
          (let bufferViewId = acc_bufferView accessor
           in if draco = None \<and> bufferViewId = None then ([], Inr None)
              else (let r = LoadVertexBuffer bufferViewId draco semantic
                              (gl_gltfResource loader) (gl_baseResource loader)
                              False (gl_asynchronous loader)
                    in ([CacheLoad r], Inr (Some r)))))"

definition loadVertexAttribute ::
  "GltfLoader \<Rightarrow> gltf \<Rightarrow> nat \<Rightarrow> string \<Rightarrow> nat option
     \<Rightarrow> event list \<times> (error + VertexAttribute)" where
  "loadVertexAttribute loader g accessorId semantic draco =
     (case loadVertexBuffer loader g accessorId semantic draco of
        (evs, Inl e) \<Rightarrow> (evs, Inl e)
      | (evs, Inr vertexBufferCacheResource) \<Rightarrow>
          (let constantValue = (if vertexBufferCacheResource \<noteq> None then None else Some 0)
           in case at (gltf_accessors g) accessorId of
                None \<Rightarrow> (evs, Inl (TypeError ''Cannot read properties of undefined''))
              | Some accessor \<Rightarrow>
                  (case gltf_bufferViews g of
                     None \<Rightarrow> (evs, Inl (TypeError ''Cannot read properties of undefined''))
                   | Some bufferViews \<Rightarrow>
                       (case (case acc_bufferView accessor of
                                None \<Rightarrow> None | Some bufferViewId \<Rightarrow> at bufferViews bufferViewId) of
                          None \<Rightarrow> (evs, Inl (TypeError ''Cannot read properties of undefined''))
                        | Some bufferView \<Rightarrow>
                            (evs, Inr \<lparr>va_semantic = semantic,
                                       va_constantValue = constantValue,
                                       va_byteOffset = acc_byteOffset accessor,
                                       va_byteStride = bview_byteStride bufferView,
                                       va_componentType = acc_componentType accessor,
                                       va_normalized = acc_normalized accessor,
                                       va_count = acc_count accessor,
                                       va_type = acc_type accessor,
                                       va_cacheResource = vertexBufferCacheResource\<rparr>)))))"

definition loadIndexBuffer ::
  "GltfLoader \<Rightarrow> gltf \<Rightarrow> nat \<Rightarrow> nat option \<Rightarrow> event list \<times> (error + cache_request option)" where
  "loadIndexBuffer loader g accessorId draco =
     (case at (gltf_accessors g) accessorId of
        None \<Rightarrow> ([], Inl (TypeError ''Cannot read properties of undefined''))
      | Some accessor \<Rightarrow>
          (let bufferViewId = acc_bufferView accessor
           in if draco = None \<and> bufferViewId = None then ([], Inr None)
              else (let r = LoadIndexBuffer accessorId draco
                              (gl_gltfResource loader) (gl_baseResource loader)
                              False (gl_asynchronous loader)
                    in ([CacheLoad r], Inr (Some r)))))"

definition loadIndices ::
  "GltfLoader \<Rightarrow> gltf \<Rightarrow> nat \<Rightarrow> nat option \<Rightarrow> event list \<times> (error + Indices)" where
  "loadIndices loader g accessorId draco =
     (case loadIndexBuffer loader g accessorId draco of
        (evs, Inl e) \<Rightarrow> (evs, Inl e)
      | (evs, Inr indexBufferCacheResource) \<Rightarrow>
          (let constantValue = (if indexBufferCacheResource \<noteq> None then None else Some 0)
           in case at (gltf_accessors g) accessorId of
                None \<Rightarrow> (evs, Inl (TypeError ''Cannot read properties of undefined''))
              | Some accessor \<Rightarrow>
                  (evs, Inr \<lparr>ind_constantValue = constantValue,
                             ind_indexDatatype = acc_componentType accessor,
                             ind_count = acc_count accessor,
                             ind_cacheResource = indexBufferCacheResource\<rparr>)))"

section \<open>Promise chains and vocabulary of the statements\<close>

text \<open>
  The chain \<^verbatim>\<open>bufferViewLoader.promise.then(...).otherwise(...)\<close> of the image loader, run
  on the outcome of the buffer view, and the decode promise the outer \<^verbatim>\<open>then\<close> returned,
  settling into the same chain.
\<close>

definition img_settle_bufferView ::
  "byte list option outcome \<Rightarrow> GltfImageLoader \<Rightarrow> decode_call option \<times> GltfImageLoader" where
  "img_settle_bufferView out l =
     (case out of
        Failed e \<Rightarrow> (None, img_otherwise_bufferView e l)
      | Fulfilled a \<Rightarrow>
          (case img_then_bufferView a l of
             Inl e \<Rightarrow> (None, img_otherwise_bufferView e l)
           | Inr r \<Rightarrow> r))"

definition img_settle_image :: "image outcome \<Rightarrow> GltfImageLoader \<Rightarrow> GltfImageLoader" where
  "img_settle_image out l =
     (case out of
        Failed e \<Rightarrow> img_otherwise_bufferView e l
      | Fulfilled im \<Rightarrow> img_then_image im l)"

text \<open>The two-byte signatures and the WebP signature, as the interface description lists them.\<close>

definition has_signature2 :: "byte \<Rightarrow> byte \<Rightarrow> byte list \<Rightarrow> bool" where
  "has_signature2 b0 b1 xs = (at xs 0 = Some b0 \<and> at xs 1 = Some b1)"

definition has_webp_signature :: "byte list \<Rightarrow> bool" where
  "has_webp_signature xs =
     (at xs 0 = Some 0x52 \<and> at xs 1 = Some 0x49 \<and> at xs 2 = Some 0x46 \<and> at xs 3 = Some 0x46 \<and>
      at xs 8 = Some 0x57 \<and> at xs 9 = Some 0x45 \<and> at xs 10 = Some 0x42 \<and> at xs 11 = Some 0x50)"

definition has_no_signature :: "byte list \<Rightarrow> bool" where
  "has_no_signature xs =
     (\<not> has_signature2 0x42 0x49 xs \<and> \<not> has_signature2 0x47 0x49 xs \<and>
      \<not> has_signature2 0xff 0xd8 xs \<and> \<not> has_signature2 0x89 0x50 xs \<and>
      \<not> has_signature2 0xab 0x4b xs \<and> \<not> has_signature2 0x48 0x78 xs \<and>
      \<not> has_signature2 0x73 0x42 xs \<and> \<not> has_webp_signature xs)"

text \<open>The events a loader added to its trace between two of its states.\<close>

definition events_since ::
  "'a ResourceLoader_scheme \<Rightarrow> 'a ResourceLoader_scheme \<Rightarrow> event list" where
  "events_since l l' = drop (length (trace l)) (trace l')"

text \<open>The child handle of a loader with one child, as the list of references it holds.\<close>

fun held :: "cache_request option \<Rightarrow> cache_request list" where
  "held None = []"
| "held (Some h) = [h]"

text \<open>
  The requests \<^verbatim>\<open>upgradeVersion\<close> is to make for a legacy document: one per buffer that
  has a uri and no source yet, in the order of the buffers.
\<close>

fun external_requests :: "resource \<Rightarrow> gltf_buffer list \<Rightarrow> cache_request list" where
  "external_requests base [] = []"
| "external_requests base (b # bs) =
     (case buf_uri b of
        None \<Rightarrow> external_requests base bs
      | Some u \<Rightarrow>
          if buf_source b = None
          then LoadExternalBuffer (Derived base u) False # external_requests base bs
          else external_requests base bs)"

fun keepResident_of :: "cache_request \<Rightarrow> bool" where
  "keepResident_of (LoadExternalBuffer r k) = k"
| "keepResident_of (LoadEmbeddedBuffer r i t k) = k"
| "keepResident_of (LoadBufferView i g b k) = k"
| "keepResident_of (LoadVertexBuffer i d s g b k a) = k"
| "keepResident_of (LoadIndexBuffer i d g b k a) = k"

text \<open>
  A failure as the error policy describes it: starting from \<open>l\<close>, the loader first made
  one \<^verbatim>\<open>unload\<close> call on the cache for each of \<open>children\<close>, then wrote FAILED to its
  state, then rejected its promise, with an error that carries the context message and
  the underlying cause; it ends FAILED and rejected with that error.
\<close>

definition fails_with ::
  "'a ResourceLoader_scheme \<Rightarrow> 'a ResourceLoader_scheme \<Rightarrow> cache_request list \<Rightarrow> string
     \<Rightarrow> error \<Rightarrow> bool" where
  "fails_with l l' children msg cause =
     (\<exists>err. trace l' = trace l @ map CacheUnload children @ [StateSet FAILED, PromiseReject err] \<and>
            state l' = FAILED \<and> promise l' = Rejected err \<and>
            context_message err = Some msg \<and> underlying_cause err = Some cause)"

subsection \<open>Example inputs\<close>

text \<open>
  A glTF 2.0 document with one external buffer of eight bytes, one buffer view on bytes
  1 to 3 of it and one accessor on that view, and a loader of each kind for it.
\<close>

definition example_gltf :: gltf where
  "example_gltf =
     \<lparr>gltf_asset = Some (Some ''2.0''),
      gltf_buffers = [\<lparr>buf_uri = Some ''b.bin'', buf_source = None\<rparr>],
      gltf_bufferViews = Some [\<lparr>bview_buffer = 0, bview_byteOffset = Some 1,
                                bview_byteLength = Some 3, bview_byteStride = None\<rparr>],
      gltf_accessors = [\<lparr>acc_bufferView = Some 0, acc_byteOffset = Some 0,
                          acc_componentType = 5121, acc_normalized = None, acc_count = 3,
                          acc_type = ''SCALAR''\<rparr>]\<rparr>"

definition example_bufferViewLoader :: GltfBufferViewLoader where
  "example_bufferViewLoader =
     GltfBufferViewLoader_new (Resource ''m.gltf'') (Resource ''m.gltf'') (Some ''b.bin'') 0
       (Some 1) (Some 3)"

definition example_imageLoader :: GltfImageLoader where
  "example_imageLoader =
     GltfImageLoader_new (Resource ''m.gltf'') (Resource ''m.gltf'') example_gltf (Some 0) None"

definition example_jsonLoader :: GltfJsonLoader where
  "example_jsonLoader = GltfJsonLoader_new (Resource ''m.gltf'') (Resource ''m.gltf'') False"

definition example_dracoLoader :: GltfDracoLoader where
  "example_dracoLoader =
     GltfDracoLoader_new (Resource ''m.gltf'') (Resource ''m.gltf'') example_gltf (Some 0)"

text \<open>
  A legacy (version 1.0) document with one external buffer; a document whose only
  accessor has no buffer view; and a \<^verbatim>\<open>GltfLoader\<close>.
\<close>

definition example_legacy_gltf :: gltf where
  "example_legacy_gltf =
     \<lparr>gltf_asset = Some (Some ''1.0''),
      gltf_buffers = [\<lparr>buf_uri = Some ''b.bin'', buf_source = None\<rparr>],
      gltf_bufferViews = Some [], gltf_accessors = []\<rparr>"

definition example_constant_gltf :: gltf where
  "example_constant_gltf =
     \<lparr>gltf_asset = Some (Some ''2.0''), gltf_buffers = [], gltf_bufferViews = Some [],
      gltf_accessors = [\<lparr>acc_bufferView = None, acc_byteOffset = None,
                          acc_componentType = 5126, acc_normalized = None, acc_count = 3,
                          acc_type = ''VEC3''\<rparr>]\<rparr>"

definition example_gltfLoader :: GltfLoader where
  "example_gltfLoader =
     \<lparr>gl_gltfResource = Resource ''m.gltf'', gl_baseResource = Resource ''m.gltf'',
      gl_asynchronous = True\<rparr>"

text \<open>
  The example JSON loader after \<^verbatim>\<open>load\<close> and \<^verbatim>\<open>upgradeVersion\<close> on the legacy document,
  waiting for the one buffer it requested; and the document once the buffer has arrived
  and \<^verbatim>\<open>updateVersion\<close> (here: it writes version 2.0) has run.
\<close>

definition example_external_buffer :: cache_request where
  "example_external_buffer = LoadExternalBuffer (Derived (Resource ''m.gltf'') ''b.bin'') False"

definition example_upgrading_jsonLoader :: GltfJsonLoader where
  "example_upgrading_jsonLoader =
     (json_load example_jsonLoader)
       \<lparr>trace := [StateSet LOADING, CacheLoad example_external_buffer],
        json_bufferLoaders := [example_external_buffer]\<rparr>"

definition example_upgraded_gltf :: gltf where
  "example_upgraded_gltf =
     upgradeVersion_then (\<lambda>g. g\<lparr>gltf_asset := Some (Some ''2.0'')\<rparr>)
       [\<lparr>ta_buffer = 0, ta_byteOffset = 0, ta_length = 8\<rparr>] example_legacy_gltf"

text \<open>
  The requests \<^verbatim>\<open>loadEmbeddedBuffers\<close> is to make: one per buffer that has a source and no
  uri, with the index of the buffer and the loader's \<^verbatim>\<open>keepResident\<close>.
\<close>

fun embedded_requests :: "resource \<Rightarrow> bool \<Rightarrow> nat \<Rightarrow> gltf_buffer list \<Rightarrow> cache_request list" where
  "embedded_requests parent keep bufferId [] = []"
| "embedded_requests parent keep bufferId (b # bs) =
     (case buf_source b of
        None \<Rightarrow> embedded_requests parent keep (Suc bufferId) bs
      | Some source \<Rightarrow>
          if buf_uri b = None
          then LoadEmbeddedBuffer parent bufferId (Some source) keep
                 # embedded_requests parent keep (Suc bufferId) bs
          else embedded_requests parent keep (Suc bufferId) bs)"

subsection \<open>Histories of a Draco loader\<close>

text \<open>
  What can happen to a Draco loader: its methods are called (on a destroyed object a
  method throws and changes nothing) and the buffer view settles; the decode settles
  inside \<^verbatim>\<open>update\<close>. A history is any sequence of these.
\<close>

datatype draco_event =
    CallLoad
  | BufferViewFulfilled "Uint8Array option"
  | BufferViewRejected error
  | CallUpdate
  | CallDestroy

fun draco_step :: "draco_event \<Rightarrow> GltfDracoLoader \<Rightarrow> GltfDracoLoader" where
  "draco_step CallLoad l = (case call draco_load l of Inl e \<Rightarrow> l | Inr l' \<Rightarrow> l')"
| "draco_step (BufferViewFulfilled typedArray) l = draco_then_bufferView typedArray l"
| "draco_step (BufferViewRejected e) l = draco_handleError e l"
| "draco_step CallUpdate l = (case call draco_update l of Inl e \<Rightarrow> l | Inr l' \<Rightarrow> l')"
| "draco_step CallDestroy l = (case call draco_destroy l of Inl e \<Rightarrow> l | Inr l' \<Rightarrow> l')"

definition draco_run :: "draco_event list \<Rightarrow> GltfDracoLoader \<Rightarrow> GltfDracoLoader" where
  "draco_run evs l = foldl (\<lambda>a e. draco_step e a) l evs"

section \<open>Image payload sniffing\<close>

lemma at_header:
  "at (subarray 0 2 xs) 0 = at xs 0" "at (subarray 0 2 xs) 1 = at xs 1"
  by (auto simp: at_def subarray_def)

lemma at_riff:
  "at (subarray 0 4 xs) 0 = at xs 0" "at (subarray 0 4 xs) 1 = at xs 1"
  "at (subarray 0 4 xs) 2 = at xs 2" "at (subarray 0 4 xs) 3 = at xs 3"
  by (auto simp: at_def subarray_def)

lemma at_webp:
  "at (subarray 8 12 xs) 0 = at xs 8" "at (subarray 8 12 xs) 1 = at xs 9"
  "at (subarray 8 12 xs) 2 = at xs 10" "at (subarray 8 12 xs) 3 = at xs 11"
  by (auto simp: at_def subarray_def add.commute)

lemma sniff:
  "getMimeTypeFromTypedArray xs =
     (if has_signature2 0x42 0x49 xs then Inr ''image/bmp''
      else if has_signature2 0x47 0x49 xs then Inr ''image/gif''
      else if has_signature2 0xff 0xd8 xs then Inr ''image/jpeg''
      else if has_signature2 0x89 0x50 xs then Inr ''image/png''
      else if has_signature2 0xab 0x4b xs then Inr ''image/ktx''
      else if has_signature2 0x48 0x78 xs then Inr ''image/crn''
      else if has_signature2 0x73 0x42 xs then Inr ''image/basis''
      else if has_webp_signature xs then Inr ''image/webp''
      else Inl (RuntimeError ''Image data does not have valid header''))"
  unfolding getMimeTypeFromTypedArray_def Let_def at_header at_riff at_webp
    has_signature2_def has_webp_signature_def
  by (rule refl)

lemma signature2_unique:
  "has_signature2 a b xs \<Longrightarrow> has_signature2 c d xs \<Longrightarrow> a = c \<and> b = d"
  by (simp add: has_signature2_def)

lemma webp_not_signature2:
  "has_webp_signature xs \<Longrightarrow> has_signature2 a b xs \<Longrightarrow> a = 0x52 \<and> b = 0x49"
  by (simp add: has_signature2_def has_webp_signature_def)

lemma sniff_bmp: "has_signature2 0x42 0x49 xs \<Longrightarrow> getMimeTypeFromTypedArray xs = Inr ''image/bmp''"
  by (simp add: sniff)

lemma sniff_gif: "has_signature2 0x47 0x49 xs \<Longrightarrow> getMimeTypeFromTypedArray xs = Inr ''image/gif''"
  by (auto simp: sniff dest: signature2_unique)

lemma sniff_jpeg: "has_signature2 0xff 0xd8 xs \<Longrightarrow> getMimeTypeFromTypedArray xs = Inr ''image/jpeg''"
  by (auto simp: sniff dest: signature2_unique)

lemma sniff_png: "has_signature2 0x89 0x50 xs \<Longrightarrow> getMimeTypeFromTypedArray xs = Inr ''image/png''"
  by (auto simp: sniff dest: signature2_unique)

lemma sniff_ktx: "has_signature2 0xab 0x4b xs \<Longrightarrow> getMimeTypeFromTypedArray xs = Inr ''image/ktx''"
  by (auto simp: sniff dest: signature2_unique)

lemma sniff_crn: "has_signature2 0x48 0x78 xs \<Longrightarrow> getMimeTypeFromTypedArray xs = Inr ''image/crn''"
  by (auto simp: sniff dest: signature2_unique)

lemma sniff_basis: "has_signature2 0x73 0x42 xs \<Longrightarrow> getMimeTypeFromTypedArray xs = Inr ''image/basis''"
  by (auto simp: sniff dest: signature2_unique)

lemma sniff_webp: "getMimeTypeFromTypedArray xs = Inr ''image/webp'' \<longleftrightarrow> has_webp_signature xs"
  by (auto simp: sniff dest: webp_not_signature2)

lemma sniff_invalid:
  "has_no_signature xs \<Longrightarrow>
   getMimeTypeFromTypedArray xs = Inl (RuntimeError ''Image data does not have valid header'')"
  by (simp add: sniff has_no_signature_def)

lemma decode_path_iff:
  "(\<exists>d. loadImageFromBufferTypedArray xs = Inr d) \<longleftrightarrow> \<not> has_no_signature xs"
  by (auto simp: loadImageFromBufferTypedArray_def sniff has_no_signature_def)

lemma loader_fails_on_invalid_header:
  assumes "has_no_signature xs" and "state l \<noteq> DESTROYED"
  shows "img_then_bufferView (Some xs) l =
           Inl (RuntimeError ''Image data does not have valid header'')"
    and "snd (img_settle_bufferView (Fulfilled (Some xs)) l) =
           img_otherwise_bufferView (RuntimeError ''Image data does not have valid header'') l"
    and "fst (img_settle_bufferView (Fulfilled (Some xs)) l) = None"
    and "state (snd (img_settle_bufferView (Fulfilled (Some xs)) l)) = FAILED"
  using assms
  by (simp_all add: img_settle_bufferView_def img_then_bufferView_def
      loadImageFromBufferTypedArray_def sniff_invalid img_otherwise_bufferView_def
      handleError_def reject_def set_state_def)

text \<open>
  Claim C3. For every byte buffer, the sniffing of the image loader answers BMP for the
  bytes 0x42 0x49 at offsets 0 and 1, GIF for 0x47 0x49, JPEG for 0xFF 0xD8, PNG for
  0x89 0x50, KTX for 0xAB 0x4B, CRN for 0x48 0x78 and Basis for 0x73 0x42; it answers
  WebP exactly when bytes 0 to 3 are RIFF and bytes 8 to 11 are WEBP; and on a buffer
  with none of these signatures it throws "Image data does not have valid header", no
  decode path is selected (one is selected exactly when some signature matches), and a
  loader that is not destroyed ends FAILED.
\<close>

theorem C3_magic_byte_dispatch:
  "(has_signature2 0x42 0x49 xs \<longrightarrow> getMimeTypeFromTypedArray xs = Inr ''image/bmp'') \<and>
   (has_signature2 0x47 0x49 xs \<longrightarrow> getMimeTypeFromTypedArray xs = Inr ''image/gif'') \<and>
   (has_signature2 0xff 0xd8 xs \<longrightarrow> getMimeTypeFromTypedArray xs = Inr ''image/jpeg'') \<and>
   (has_signature2 0x89 0x50 xs \<longrightarrow> getMimeTypeFromTypedArray xs = Inr ''image/png'') \<and>
   (has_signature2 0xab 0x4b xs \<longrightarrow> getMimeTypeFromTypedArray xs = Inr ''image/ktx'') \<and>
   (has_signature2 0x48 0x78 xs \<longrightarrow> getMimeTypeFromTypedArray xs = Inr ''image/crn'') \<and>
   (has_signature2 0x73 0x42 xs \<longrightarrow> getMimeTypeFromTypedArray xs = Inr ''image/basis'') \<and>
   (getMimeTypeFromTypedArray xs = Inr ''image/webp'' \<longleftrightarrow> has_webp_signature xs) \<and>
   ((\<exists>d. loadImageFromBufferTypedArray xs = Inr d) \<longleftrightarrow> \<not> has_no_signature xs) \<and>
   (has_no_signature xs \<longrightarrow>
      getMimeTypeFromTypedArray xs = Inl (RuntimeError ''Image data does not have valid header'') \<and>
      loadImageFromBufferTypedArray xs =
        Inl (RuntimeError ''Image data does not have valid header'') \<and>
      (\<forall>l. state l \<noteq> DESTROYED \<longrightarrow>
         img_then_bufferView (Some xs) l =
           Inl (RuntimeError ''Image data does not have valid header'') \<and>
         fst (img_settle_bufferView (Fulfilled (Some xs)) l) = None \<and>
         state (snd (img_settle_bufferView (Fulfilled (Some xs)) l)) = FAILED))"
proof -
  have invalid: "has_no_signature xs \<Longrightarrow>
      loadImageFromBufferTypedArray xs =
        Inl (RuntimeError ''Image data does not have valid header'')"
    by (simp add: loadImageFromBufferTypedArray_def sniff_invalid)
  show ?thesis
    using sniff_bmp [of xs] sniff_gif [of xs] sniff_jpeg [of xs] sniff_png [of xs]
      sniff_ktx [of xs] sniff_crn [of xs] sniff_basis [of xs] sniff_webp [of xs]
      decode_path_iff [of xs] sniff_invalid [of xs] invalid
      loader_fails_on_invalid_header [of xs]
    by blast
qed

theorem C3_magic_byte_dispatch_witness:
  "getMimeTypeFromTypedArray [0x42, 0x49, 0x00] = Inr ''image/bmp'' \<and>
   getMimeTypeFromTypedArray [0x47, 0x49] = Inr ''image/gif'' \<and>
   getMimeTypeFromTypedArray [0xff, 0xd8, 0xff] = Inr ''image/jpeg'' \<and>
   getMimeTypeFromTypedArray [0x89, 0x50, 0x4e, 0x47] = Inr ''image/png'' \<and>
   getMimeTypeFromTypedArray [0xab, 0x4b] = Inr ''image/ktx'' \<and>
   getMimeTypeFromTypedArray [0x48, 0x78] = Inr ''image/crn'' \<and>
   getMimeTypeFromTypedArray [0x73, 0x42] = Inr ''image/basis'' \<and>
   getMimeTypeFromTypedArray
     [0x52, 0x49, 0x46, 0x46, 0x10, 0x00, 0x00, 0x00, 0x57, 0x45, 0x42, 0x50] =
     Inr ''image/webp'' \<and>
   has_no_signature [0x52, 0x49, 0x46, 0x46] \<and>
   getMimeTypeFromTypedArray [0x52, 0x49, 0x46, 0x46] =
     Inl (RuntimeError ''Image data does not have valid header'') \<and>
   state (GltfImageLoader_new (Resource ''a.gltf'') (Resource ''a.gltf'')
            \<lparr>gltf_asset = Some (Some ''2.0''), gltf_buffers = [], gltf_bufferViews = Some [],
             gltf_accessors = []\<rparr> (Some 0) None) \<noteq> DESTROYED \<and>
   state (snd (img_settle_bufferView (Fulfilled (Some [0x52, 0x49, 0x46, 0x46]))
            (GltfImageLoader_new (Resource ''a.gltf'') (Resource ''a.gltf'')
               \<lparr>gltf_asset = Some (Some ''2.0''), gltf_buffers = [], gltf_bufferViews = Some [],
                gltf_accessors = []\<rparr> (Some 0) None))) = FAILED"
  using C3_magic_byte_dispatch [of "[0x42, 0x49, 0x00]"]
    C3_magic_byte_dispatch [of "[0x47, 0x49]"]
    C3_magic_byte_dispatch [of "[0xff, 0xd8, 0xff]"]
    C3_magic_byte_dispatch [of "[0x89, 0x50, 0x4e, 0x47]"]
    C3_magic_byte_dispatch [of "[0xab, 0x4b]"]
    C3_magic_byte_dispatch [of "[0x48, 0x78]"]
    C3_magic_byte_dispatch [of "[0x73, 0x42]"]
    C3_magic_byte_dispatch
      [of "[0x52, 0x49, 0x46, 0x46, 0x10, 0x00, 0x00, 0x00, 0x57, 0x45, 0x42, 0x50]"]
    C3_magic_byte_dispatch [of "[0x52, 0x49, 0x46, 0x46]"]
  by (simp add: has_signature2_def has_webp_signature_def has_no_signature_def at_def
      GltfImageLoader_new_def)

section \<open>Buffer view slicing\<close>

lemma bytes_slice:
  assumes "off + len \<le> ta_length p"
  shows "bytes m \<lparr>ta_buffer = ta_buffer p, ta_byteOffset = ta_byteOffset p + off,
                  ta_length = len\<rparr> = take len (drop off (bytes m p))"
proof -
  have "take len (drop off (take (ta_length p) (drop (ta_byteOffset p) (m (ta_buffer p))))) =
        take len (take (ta_length p - off) (drop off (drop (ta_byteOffset p) (m (ta_buffer p)))))"
    by (simp add: drop_take)
  also have "\<dots> = take len (drop (ta_byteOffset p + off) (m (ta_buffer p)))"
    using assms by (simp add: min_def add.commute)
  finally show ?thesis by (simp add: bytes_def)
qed

lemma new_Uint8Array_inside:
  assumes "valid_view mem p" and "off + len \<le> ta_length p"
  shows "new_Uint8Array mem (ta_buffer p) (Some (ta_byteOffset p + off)) (Some len) =
           Inr \<lparr>ta_buffer = ta_buffer p, ta_byteOffset = ta_byteOffset p + off, ta_length = len\<rparr>"
  using assms by (simp add: new_Uint8Array_def valid_view_def Let_def)

lemma length_bytes_slice:
  assumes "valid_view mem p" and "off + len \<le> ta_length p"
  shows "length (bytes mem \<lparr>ta_buffer = ta_buffer p, ta_byteOffset = ta_byteOffset p + off,
                           ta_length = len\<rparr>) = len"
  using assms by (simp add: bytes_def valid_view_def)

lemma bv_load_fields:
  "state (bv_load l) = LOADING"
  "promise (bv_load l) = promise l"
  "destroyed (bv_load l) = destroyed l"
  "bv_byteOffset (bv_load l) = bv_byteOffset l"
  "bv_byteLength (bv_load l) = bv_byteLength l"
  "bv_typedArray (bv_load l) = bv_typedArray l"
  "bv_bufferLoader (bv_load l) = Some (fst (bv_getBufferLoader l))"
  "trace (bv_load l) = trace l @ [CacheLoad (fst (bv_getBufferLoader l)), StateSet LOADING]"
  by (simp_all add: bv_load_def bv_getBufferLoader_def cache_load_def set_state_def
      split: option.splits prod.splits)

lemma bv_then_ready:
  assumes "valid_view mem p" and "off + len \<le> ta_length p"
    and "bv_byteOffset l = Some off" and "bv_byteLength l = Some len"
    and "state l \<noteq> DESTROYED"
  shows "bv_then mem (Some p) l =
           Inr (resolve (set_state READY
                  (l\<lparr>bv_typedArray :=
                       Some \<lparr>ta_buffer = ta_buffer p, ta_byteOffset = ta_byteOffset p + off,
                             ta_length = len\<rparr>\<rparr>)))"
  using assms by (simp add: bv_then_def new_Uint8Array_inside)

text \<open>
  Claim C2. For a parent buffer of N bytes (the typed array \<open>p\<close> of the buffer loader)
  and a buffer view with byteOffset \<open>off\<close> and byteLength \<open>len\<close>, \<open>off + len \<le> N\<close>:
  the \<^verbatim>\<open>then\<close> continuation that follows \<^verbatim>\<open>load\<close> returns normally, the loader is READY,
  its typed array is a window into the parent's own ArrayBuffer that holds exactly the
  bytes \<open>[off, off + len)\<close> of the parent, whatever is written to that memory later;
  from \<^verbatim>\<open>load\<close> to READY the loader made no \<^verbatim>\<open>unload\<close> call on the cache and still holds
  the buffer loader, and its own \<^verbatim>\<open>unload\<close> is what releases it.
\<close>

theorem C2_bufferView_slicing:
  assumes "valid_view mem p" and "off + len \<le> ta_length p"
    and "bv_byteOffset l0 = Some off" and "bv_byteLength l0 = Some len"
  shows "\<exists>l v h.
           bv_then mem (Some p) (bv_load l0) = Inr l \<and>
           state l = READY \<and>
           promise l = (if promise l0 = Pending then Resolved else promise l0) \<and>
           bv_typedArray l = Some v \<and>
           ta_buffer v = ta_buffer p \<and>
           length (bytes mem v) = len \<and>
           bytes mem v = take len (drop off (bytes mem p)) \<and>
           (\<forall>mem'. bytes mem' v = take len (drop off (bytes mem' p))) \<and>
           bv_bufferLoader l = Some h \<and>
           events_since l0 l = [CacheLoad h, StateSet LOADING, StateSet READY, PromiseResolve] \<and>
           events_since l (bv_unload l) = [CacheUnload h] \<and>
           bv_bufferLoader (bv_unload l) = None"
proof -
  let ?v = "\<lparr>ta_buffer = ta_buffer p, ta_byteOffset = ta_byteOffset p + off, ta_length = len\<rparr>"
  let ?l = "resolve (set_state READY ((bv_load l0)\<lparr>bv_typedArray := Some ?v\<rparr>))"
  let ?h = "fst (bv_getBufferLoader l0)"
  have run: "bv_then mem (Some p) (bv_load l0) = Inr ?l"
    using assms by (intro bv_then_ready) (simp_all add: bv_load_fields)
  have st: "state ?l = READY"
    by (simp add: resolve_def set_state_def)
  have pr: "promise ?l = (if promise l0 = Pending then Resolved else promise l0)"
    by (simp add: resolve_def set_state_def bv_load_fields)
  have ta: "bv_typedArray ?l = Some ?v"
    by (simp add: resolve_def set_state_def)
  have len: "length (bytes mem ?v) = len"
    using assms(1,2) by (rule length_bytes_slice)
  have sl: "\<And>m. bytes m ?v = take len (drop off (bytes m p))"
    using assms(2) by (rule bytes_slice)
  have held: "bv_bufferLoader ?l = Some ?h"
    by (simp add: resolve_def set_state_def bv_load_fields)
  have tr: "trace ?l = trace l0 @ [CacheLoad ?h, StateSet LOADING, StateSet READY, PromiseResolve]"
    by (simp add: resolve_def set_state_def bv_load_fields)
  have ev: "events_since l0 ?l = [CacheLoad ?h, StateSet LOADING, StateSet READY, PromiseResolve]"
    by (simp add: events_since_def tr)
  have un: "events_since ?l (bv_unload ?l) = [CacheUnload ?h]"
    by (simp add: events_since_def bv_unload_def held cache_unload_def)
  have rel: "bv_bufferLoader (bv_unload ?l) = None"
    by (simp add: bv_unload_def Let_def)
  show ?thesis
    using run st pr ta len sl held ev un rel by (intro exI [of _ ?l] exI [of _ ?v] exI [of _ ?h]) simp
qed

theorem C2_bufferView_slicing_witness:
  "valid_view (\<lambda>a. [10, 11, 12, 13, 14, 15, 16, 17])
     \<lparr>ta_buffer = 0, ta_byteOffset = 2, ta_length = 5\<rparr> \<and>
   (1::nat) + 3 \<le> ta_length \<lparr>ta_buffer = 0, ta_byteOffset = 2, ta_length = 5\<rparr> \<and>
   (\<exists>l v h.
      bv_then (\<lambda>a. [10, 11, 12, 13, 14, 15, 16, 17])
        (Some \<lparr>ta_buffer = 0, ta_byteOffset = 2, ta_length = 5\<rparr>)
        (bv_load (GltfBufferViewLoader_new (Resource ''m.gltf'') (Resource ''m.gltf'')
                    (Some ''b.bin'') 0 (Some 1) (Some 3))) = Inr l \<and>
      state l = READY \<and> promise l = Resolved \<and> bv_typedArray l = Some v \<and>
      ta_buffer v = 0 \<and>
      bytes (\<lambda>a. [10, 11, 12, 13, 14, 15, 16, 17]) v = [13, 14, 15] \<and>
      bv_bufferLoader l = Some h \<and>
      events_since (GltfBufferViewLoader_new (Resource ''m.gltf'') (Resource ''m.gltf'')
                      (Some ''b.bin'') 0 (Some 1) (Some 3)) l =
        [CacheLoad h, StateSet LOADING, StateSet READY, PromiseResolve] \<and>
      events_since l (bv_unload l) = [CacheUnload h])"
proof -
  let ?mem = "\<lambda>a::nat. [10, 11, 12, 13, 14, 15, 16, 17 :: byte]"
  let ?p = "\<lparr>ta_buffer = 0, ta_byteOffset = 2, ta_length = 5\<rparr>"
  let ?l0 = "GltfBufferViewLoader_new (Resource ''m.gltf'') (Resource ''m.gltf'')
               (Some ''b.bin'') 0 (Some 1) (Some 3)"
  have v: "valid_view ?mem ?p" by (simp add: valid_view_def)
  have r: "(1::nat) + 3 \<le> ta_length ?p" by simp
  have o: "bv_byteOffset ?l0 = Some 1" and n: "bv_byteLength ?l0 = Some 3"
    and pe: "promise ?l0 = Pending"
    by (simp_all add: GltfBufferViewLoader_new_def)
  have b: "take 3 (drop 1 (bytes ?mem ?p)) = [13, 14, 15]"
    by (simp add: bytes_def)
  from C2_bufferView_slicing [OF v r o n] obtain l w h where
    "bv_then ?mem (Some ?p) (bv_load ?l0) = Inr l" "state l = READY"
    "promise l = (if promise ?l0 = Pending then Resolved else promise ?l0)"
    "bv_typedArray l = Some w" "ta_buffer w = ta_buffer ?p"
    "bytes ?mem w = take 3 (drop 1 (bytes ?mem ?p))" "bv_bufferLoader l = Some h"
    "events_since ?l0 l = [CacheLoad h, StateSet LOADING, StateSet READY, PromiseResolve]"
    "events_since l (bv_unload l) = [CacheUnload h]"
    by blast
  with v r b pe show ?thesis by auto
qed

section \<open>Unloading\<close>

lemma foldl_cache_unload:
  "foldl (\<lambda>a bufferLoader. cache_unload bufferLoader a) l hs =
     l\<lparr>trace := trace l @ map CacheUnload hs\<rparr>"
  by (induction hs arbitrary: l) (simp_all add: cache_unload_def)

lemma json_unload_eq:
  "json_unload l =
     l\<lparr>trace := trace l @ map CacheUnload (json_bufferLoaders l),
       json_bufferLoader := Some [], json_gltf := None\<rparr>"
  by (simp add: json_unload_def foldl_cache_unload)

lemma bv_unload_eq:
  "bv_unload l =
     l\<lparr>trace := trace l @ map CacheUnload (held (bv_bufferLoader l)),
       bv_bufferLoader := None, bv_typedArray := None\<rparr>"
  by (cases "bv_bufferLoader l") (simp_all add: bv_unload_def cache_unload_def)

lemma img_unload_eq:
  "img_unload l =
     l\<lparr>trace := trace l @ map CacheUnload (held (img_bufferViewLoader l)),
       img_bufferViewLoader := None, img_uri := None, img_image := None, img_gltf := None\<rparr>"
  by (cases "img_bufferViewLoader l") (simp_all add: img_unload_def cache_unload_def)

lemma draco_unload_eq:
  "draco_unload l =
     l\<lparr>trace := trace l @ map CacheUnload (held (draco_bufferViewLoader l)),
       draco_bufferViewLoader := None, draco_bufferViewTypedArray := None,
       draco_decodedData := None, draco_gltf := None\<rparr>"
  by (cases "draco_bufferViewLoader l") (simp_all add: draco_unload_def cache_unload_def)

lemma upgradeVersion_buffers_eq:
  "upgradeVersion_buffers bs l =
     l\<lparr>trace := trace l @ map CacheLoad (external_requests (json_baseResource l) bs),
       json_bufferLoaders :=
         json_bufferLoaders l @ external_requests (json_baseResource l) bs\<rparr>"
proof (induction bs arbitrary: l)
  case Nil
  show ?case by simp
next
  case (Cons b bs)
  show ?case
  proof (cases "buf_uri b")
    case None
    then show ?thesis by (simp add: Cons.IH)
  next
    case (Some u)
    then show ?thesis by (simp add: Cons.IH cache_load_def)
  qed
qed

lemma loadEmbeddedBuffers_from_eq:
  "loadEmbeddedBuffers_from n bs l =
     l\<lparr>trace := trace l @
                 map CacheLoad (embedded_requests (json_gltfResource l) (json_keepResident l) n bs),
       json_bufferLoaders :=
         json_bufferLoaders l @
         embedded_requests (json_gltfResource l) (json_keepResident l) n bs\<rparr>"
proof (induction bs arbitrary: l n)
  case Nil
  show ?case by simp
next
  case (Cons b bs)
  show ?case
  proof (cases "buf_source b")
    case None
    then show ?thesis by (simp add: Cons.IH)
  next
    case (Some src)
    then show ?thesis by (simp add: Cons.IH cache_load_def)
  qed
qed

lemma unload_keeps:
  "state (bv_unload b) = state b" "promise (bv_unload b) = promise b"
  "state (img_unload i) = state i" "promise (img_unload i) = promise i"
  "state (json_unload j) = state j" "promise (json_unload j) = promise j"
  "state (draco_unload d) = state d" "promise (draco_unload d) = promise d"
  by (simp_all add: bv_unload_eq img_unload_eq json_unload_eq draco_unload_eq)


lemma destroy_fields:
  "state (bv_destroy b) = DESTROYED" "promise (bv_destroy b) = promise b"
  "state (img_destroy i) = DESTROYED" "promise (img_destroy i) = promise i"
  "state (json_destroy j) = DESTROYED" "promise (json_destroy j) = promise j"
  "state (draco_destroy d) = DESTROYED" "promise (draco_destroy d) = promise d"
  by (simp_all add: bv_destroy_def img_destroy_def json_destroy_def draco_destroy_def
      destroyObject_def set_state_def unload_keeps)

section \<open>Destruction while a dependency is in flight\<close>

lemma example_loaders_fresh:
  "promise example_bufferViewLoader = Pending" "destroyed example_bufferViewLoader = False"
  "promise example_imageLoader = Pending" "destroyed example_imageLoader = False"
  "promise example_jsonLoader = Pending" "destroyed example_jsonLoader = False"
  "promise example_dracoLoader = Pending" "destroyed example_dracoLoader = False"
  by (simp_all add: example_bufferViewLoader_def example_imageLoader_def example_jsonLoader_def
      example_dracoLoader_def GltfBufferViewLoader_new_def GltfImageLoader_new_def
      GltfJsonLoader_new_def GltfDracoLoader_new_def)

lemma load_keeps:
  "promise (bv_load b) = promise b" "destroyed (bv_load b) = destroyed b"
  "promise (img_load i) = promise i" "destroyed (img_load i) = destroyed i"
  "promise (json_load j) = promise j" "destroyed (json_load j) = destroyed j"
  "promise (draco_load d) = promise d" "destroyed (draco_load d) = destroyed d"
  by (simp_all add: bv_load_fields img_load_def loadFromBufferView_def loadFromUri_def
      json_load_def draco_load_def cache_load_def set_state_def)





section \<open>Failure of a dependency\<close>

lemma getError_keeps:
  "context_message (getError e m) = Some m" "underlying_cause (getError e m) = Some e"
  by (simp_all add: getError_def)

lemma bv_otherwise_fails:
  assumes "promise l = Pending"
  shows "fails_with l (bv_otherwise e l) (held (bv_bufferLoader l)) ''Failed to load buffer view'' e"
  unfolding fails_with_def
  using assms
  by (intro exI [of _ "getError e ''Failed to load buffer view''"])
     (simp add: bv_otherwise_def reject_def set_state_def bv_unload_eq getError_keeps)

lemma handleError_fails:
  assumes "promise l = Pending"
  shows "fails_with l (handleError e m l) (held (img_bufferViewLoader l)) m e"
  unfolding fails_with_def
  using assms
  by (intro exI [of _ "getError e m"])
     (simp add: handleError_def reject_def set_state_def img_unload_eq getError_keeps)

lemma json_otherwise_fails:
  assumes "promise l = Pending"
  shows "fails_with l (json_otherwise e l) (json_bufferLoaders l)
           (''Failed to load glTF: '' @ url (json_gltfResource l)) e"
  unfolding fails_with_def
  using assms
  by (intro exI [of _ "getError e (''Failed to load glTF: '' @ url (json_gltfResource l))"])
     (simp add: json_otherwise_def Let_def reject_def set_state_def json_unload_eq getError_keeps)

lemma draco_handleError_fails:
  assumes "promise l = Pending"
  shows "fails_with l (draco_handleError e l) (held (draco_bufferViewLoader l))
           ''Failed to load Draco'' e"
  unfolding fails_with_def
  using assms
  by (intro exI [of _ "getError e ''Failed to load Draco''"])
     (simp add: draco_handleError_def reject_def set_state_def draco_unload_eq getError_keeps)

text \<open>
  Claim C4. When the promise of a direct dependency rejects with \<open>e\<close> and the loader's
  own promise is still pending, each of the four loaders first makes one \<^verbatim>\<open>unload\<close> call
  on the cache for every child reference it holds (through its \<^verbatim>\<open>unload\<close>, after which a
  single child handle is cleared), then writes FAILED to its state, then rejects its
  promise; the rejection carries the context message ("Failed to load buffer view",
  "Failed to load embedded image", "Failed to load image:" and the uri,
  "Failed to load glTF: " and the url, "Failed to load Draco") together with \<open>e\<close> as
  the underlying cause. The same holds when the rejection is an error thrown in the
  loader's own \<^verbatim>\<open>then\<close> continuation.
\<close>

theorem C4_dependency_failure:
  assumes "promise bv = Pending" and "promise im = Pending"
    and "promise js = Pending" and "promise dr = Pending"
  shows
    "fails_with bv (bv_otherwise e bv) (held (bv_bufferLoader bv))
       ''Failed to load buffer view'' e \<and>
     bv_bufferLoader (bv_otherwise e bv) = None \<and>
     bv_settle mem (Failed e) bv = bv_otherwise e bv \<and>
     fails_with im (img_otherwise_bufferView e im) (held (img_bufferViewLoader im))
       ''Failed to load embedded image'' e \<and>
     img_bufferViewLoader (img_otherwise_bufferView e im) = None \<and>
     snd (img_settle_bufferView (Failed e) im) = img_otherwise_bufferView e im \<and>
     img_settle_image (Failed e) im = img_otherwise_bufferView e im \<and>
     fails_with im (img_otherwise_uri (Some u) e im) (held (img_bufferViewLoader im))
       (''Failed to load image:'' @ u) e \<and>
     fails_with js (json_otherwise e js) (json_bufferLoaders js)
       (''Failed to load glTF: '' @ url (json_gltfResource js)) e \<and>
     fails_with dr (draco_handleError e dr) (held (draco_bufferViewLoader dr))
       ''Failed to load Draco'' e \<and>
     draco_bufferViewLoader (draco_handleError e dr) = None"
proof -
  have b: "bv_bufferLoader (bv_otherwise e bv) = None"
    by (simp add: bv_otherwise_def reject_def set_state_def bv_unload_eq)
  have i: "img_bufferViewLoader (img_otherwise_bufferView e im) = None"
    by (simp add: img_otherwise_bufferView_def handleError_def reject_def set_state_def
        img_unload_eq)
  have d: "draco_bufferViewLoader (draco_handleError e dr) = None"
    by (simp add: draco_handleError_def reject_def set_state_def draco_unload_eq)
  have s: "bv_settle mem (Failed e) bv = bv_otherwise e bv"
    "snd (img_settle_bufferView (Failed e) im) = img_otherwise_bufferView e im"
    "img_settle_image (Failed e) im = img_otherwise_bufferView e im"
    by (simp_all add: bv_settle_def img_settle_bufferView_def img_settle_image_def)
  have u: "fails_with im (img_otherwise_uri (Some u) e im) (held (img_bufferViewLoader im))
       (''Failed to load image:'' @ u) e"
    using handleError_fails [OF assms(2)] by (simp add: img_otherwise_uri_def)
  have v: "fails_with im (img_otherwise_bufferView e im) (held (img_bufferViewLoader im))
       ''Failed to load embedded image'' e"
    using handleError_fails [OF assms(2)] by (simp add: img_otherwise_bufferView_def)
  show ?thesis
    using bv_otherwise_fails [OF assms(1)] json_otherwise_fails [OF assms(3)]
      draco_handleError_fails [OF assms(4)] b i d s u v
    by simp
qed

theorem C4_dependency_failure_witness:
  "promise (bv_load example_bufferViewLoader) = Pending \<and>
   promise (loadFromBufferView example_imageLoader) = Pending \<and>
   promise (json_load example_jsonLoader) = Pending \<and>
   promise (draco_load example_dracoLoader) = Pending \<and>
   trace (bv_otherwise (RequestError ''404'') (bv_load example_bufferViewLoader)) =
     [CacheLoad (LoadExternalBuffer (Derived (Resource ''m.gltf'') ''b.bin'') False),
      StateSet LOADING,
      CacheUnload (LoadExternalBuffer (Derived (Resource ''m.gltf'') ''b.bin'') False),
      StateSet FAILED,
      PromiseReject (LoaderError ''Failed to load buffer view'' (RequestError ''404''))] \<and>
   promise (bv_otherwise (RequestError ''404'') (bv_load example_bufferViewLoader)) =
     Rejected (LoaderError ''Failed to load buffer view'' (RequestError ''404'')) \<and>
   fails_with (loadFromBufferView example_imageLoader)
     (img_otherwise_bufferView (RequestError ''404'') (loadFromBufferView example_imageLoader))
     [LoadBufferView (Some 0) (Resource ''m.gltf'') (Resource ''m.gltf'') False]
     ''Failed to load embedded image'' (RequestError ''404'') \<and>
   fails_with (json_load example_jsonLoader)
     (json_otherwise (RequestError ''404'') (json_load example_jsonLoader)) []
     ''Failed to load glTF: m.gltf'' (RequestError ''404'') \<and>
   fails_with (draco_load example_dracoLoader)
     (draco_handleError (RequestError ''404'') (draco_load example_dracoLoader))
     [LoadBufferView (Some 0) (Resource ''m.gltf'') (Resource ''m.gltf'') False]
     ''Failed to load Draco'' (RequestError ''404'')"
proof -
  have p: "promise (bv_load example_bufferViewLoader) = Pending"
    "promise (loadFromBufferView example_imageLoader) = Pending"
    "promise (json_load example_jsonLoader) = Pending"
    "promise (draco_load example_dracoLoader) = Pending"
    by (simp_all add: load_keeps example_loaders_fresh loadFromBufferView_def cache_load_def
        set_state_def)
  have h: "bv_bufferLoader (bv_load example_bufferViewLoader) =
             Some (LoadExternalBuffer (Derived (Resource ''m.gltf'') ''b.bin'') False)"
    "img_bufferViewLoader (loadFromBufferView example_imageLoader) =
       Some (LoadBufferView (Some 0) (Resource ''m.gltf'') (Resource ''m.gltf'') False)"
    "json_bufferLoaders (json_load example_jsonLoader) = []"
    "url (json_gltfResource (json_load example_jsonLoader)) = ''m.gltf''"
    "draco_bufferViewLoader (draco_load example_dracoLoader) =
       Some (LoadBufferView (Some 0) (Resource ''m.gltf'') (Resource ''m.gltf'') False)"
    "trace (bv_load example_bufferViewLoader) =
       [CacheLoad (LoadExternalBuffer (Derived (Resource ''m.gltf'') ''b.bin'') False),
        StateSet LOADING]"
    by (simp_all add: bv_load_def bv_getBufferLoader_def loadFromBufferView_def json_load_def
        draco_load_def cache_load_def set_state_def example_bufferViewLoader_def
        example_imageLoader_def example_jsonLoader_def example_dracoLoader_def
        GltfBufferViewLoader_new_def GltfImageLoader_new_def GltfJsonLoader_new_def
        GltfDracoLoader_new_def)
  have f: "fails_with l l' [c] m x \<Longrightarrow> trace l = t \<Longrightarrow>
           trace l' = t @ [CacheUnload c, StateSet FAILED, PromiseReject (LoaderError m x)] \<and>
           promise l' = Rejected (LoaderError m x)"
    for l l' :: GltfBufferViewLoader and c m x t
  proof -
    assume a: "fails_with l l' [c] m x" and t: "trace l = t"
    then obtain err where e: "trace l' = trace l @ map CacheUnload [c] @ [StateSet FAILED, PromiseReject err]"
      "promise l' = Rejected err" "context_message err = Some m" "underlying_cause err = Some x"
      unfolding fails_with_def by blast
    from e(3,4) have "err = LoaderError m x" by (cases err) simp_all
    with e t show ?thesis by simp
  qed
  note c = C4_dependency_failure [OF p, of "RequestError ''404''" "\<lambda>a. []" "''x.png''"]
  from c h have "fails_with (bv_load example_bufferViewLoader)
      (bv_otherwise (RequestError ''404'') (bv_load example_bufferViewLoader))
      [LoadExternalBuffer (Derived (Resource ''m.gltf'') ''b.bin'') False]
      ''Failed to load buffer view'' (RequestError ''404'')"
    by simp
  from f [OF this h(6)] c p h show ?thesis by simp
qed

section \<open>Failure after destruction\<close>

lemma otherwise_overwrites_state:
  "state (bv_otherwise e b) = FAILED"
  "state (img_otherwise_bufferView e i) = FAILED"
  "state (img_otherwise_uri u e i) = FAILED"
  "state (json_otherwise e j) = FAILED"
  "state (draco_handleError e d) = FAILED"
  by (simp_all add: bv_otherwise_def img_otherwise_bufferView_def img_otherwise_uri_def
      handleError_def json_otherwise_def draco_handleError_def Let_def reject_def set_state_def)

lemma otherwise_rejects_pending:
  "promise b = Pending \<Longrightarrow>
     promise (bv_otherwise e b) = Rejected (LoaderError ''Failed to load buffer view'' e)"
  "promise i = Pending \<Longrightarrow>
     promise (img_otherwise_bufferView e i) =
       Rejected (LoaderError ''Failed to load embedded image'' e)"
  "promise j = Pending \<Longrightarrow>
     promise (json_otherwise e j) =
       Rejected (LoaderError (''Failed to load glTF: '' @ url (json_gltfResource j)) e)"
  "promise d = Pending \<Longrightarrow>
     promise (draco_handleError e d) = Rejected (LoaderError ''Failed to load Draco'' e)"
  by (simp_all add: bv_otherwise_def img_otherwise_bufferView_def handleError_def
      json_otherwise_def draco_handleError_def Let_def reject_def set_state_def getError_def
      unload_keeps json_unload_eq)

text \<open>
  Claim C5, at a failing input. A buffer view loader is loaded and then destroyed while
  its buffer is still loading: \<^verbatim>\<open>destroy\<close> returns, the state is DESTROYED, the promise
  pending.
  The buffer then fails with \<open>RequestError ''404''\<close>. The \<^verbatim>\<open>otherwise\<close> continuation has no
  test for DESTROYED: the state goes from DESTROYED to FAILED and the promise is
  rejected. The image, JSON and Draco loaders do the same.
\<close>

theorem C5_failure_after_destroy:
  "call bv_destroy (bv_load example_bufferViewLoader) =
     Inr (bv_destroy (bv_load example_bufferViewLoader)) \<and>
   state (bv_destroy (bv_load example_bufferViewLoader)) = DESTROYED \<and>
   promise (bv_destroy (bv_load example_bufferViewLoader)) = Pending \<and>
   state (bv_settle (\<lambda>a. []) (Failed (RequestError ''404''))
            (bv_destroy (bv_load example_bufferViewLoader))) = FAILED \<and>
   promise (bv_settle (\<lambda>a. []) (Failed (RequestError ''404''))
              (bv_destroy (bv_load example_bufferViewLoader))) =
     Rejected (LoaderError ''Failed to load buffer view'' (RequestError ''404'')) \<and>
   state (snd (img_settle_bufferView (Failed (RequestError ''404''))
                 (img_destroy (img_load example_imageLoader)))) = FAILED \<and>
   promise (snd (img_settle_bufferView (Failed (RequestError ''404''))
                   (img_destroy (img_load example_imageLoader)))) =
     Rejected (LoaderError ''Failed to load embedded image'' (RequestError ''404'')) \<and>
   state (json_otherwise (RequestError ''404'')
            (json_destroy (json_load example_jsonLoader))) = FAILED \<and>
   promise (json_otherwise (RequestError ''404'')
              (json_destroy (json_load example_jsonLoader))) =
     Rejected (LoaderError ''Failed to load glTF: m.gltf'' (RequestError ''404'')) \<and>
   state (draco_handleError (RequestError ''404'')
            (draco_destroy (draco_load example_dracoLoader))) = FAILED \<and>
   promise (draco_handleError (RequestError ''404'')
              (draco_destroy (draco_load example_dracoLoader))) =
     Rejected (LoaderError ''Failed to load Draco'' (RequestError ''404''))"
proof -
  have p: "promise (bv_destroy (bv_load example_bufferViewLoader)) = Pending"
    "promise (img_destroy (img_load example_imageLoader)) = Pending"
    "promise (json_destroy (json_load example_jsonLoader)) = Pending"
    "promise (draco_destroy (draco_load example_dracoLoader)) = Pending"
    by (simp_all add: destroy_fields load_keeps example_loaders_fresh)
  have u: "url (json_gltfResource (json_destroy (json_load example_jsonLoader))) = ''m.gltf''"
    by (simp add: json_destroy_def destroyObject_def set_state_def json_unload_eq json_load_def
        example_jsonLoader_def GltfJsonLoader_new_def)
  have i: "call bv_destroy (bv_load example_bufferViewLoader) =
      Inr (bv_destroy (bv_load example_bufferViewLoader))"
    by (simp add: call_def load_keeps example_loaders_fresh)
  show ?thesis
    using p u i otherwise_rejects_pending(1) [OF p(1)] otherwise_rejects_pending(2) [OF p(2)]
      otherwise_rejects_pending(3) [OF p(3)] otherwise_rejects_pending(4) [OF p(4)]
    by (simp add: destroy_fields otherwise_overwrites_state bv_settle_def
        img_settle_bufferView_def)
qed

section \<open>Unloading twice\<close>

lemma single_child_unload_twice:
  "bv_unload (bv_unload b) = bv_unload b"
  "img_unload (img_unload i) = img_unload i"
  "draco_unload (draco_unload d) = draco_unload d"
  by (simp_all add: bv_unload_eq img_unload_eq draco_unload_eq)

lemma json_unload_keeps_list:
  "json_bufferLoaders (json_unload j) = json_bufferLoaders j"
  by (simp add: json_unload_eq)

lemma json_unload_twice:
  "events_since j (json_unload (json_unload j)) =
     map CacheUnload (json_bufferLoaders j) @ map CacheUnload (json_bufferLoaders j)"
  by (simp add: events_since_def json_unload_eq)

text \<open>
  Claim C10, at a failing input. A JSON loader upgrades a legacy document and requests
  its one external buffer; the buffer fails to load, so the \<^verbatim>\<open>otherwise\<close> continuation
  unloads; the loader is then destroyed. \<^verbatim>\<open>unload\<close> writes the empty list to
  \<^verbatim>\<open>_bufferLoader\<close> and leaves \<^verbatim>\<open>_bufferLoaders\<close> as it is, so the one reference the
  loader took is released twice: once on failure and once more on destroy. The buffer
  view, image and Draco loaders clear their handle, and their second \<^verbatim>\<open>unload\<close> changes
  nothing.
\<close>

theorem C10_json_unload_releases_twice:
  "upgradeVersion example_legacy_gltf (json_load example_jsonLoader) =
     Inr example_upgrading_jsonLoader \<and>
   json_bufferLoaders example_upgrading_jsonLoader = [example_external_buffer] \<and>
   call json_destroy (json_otherwise (RequestError ''404'') example_upgrading_jsonLoader) =
     Inr (json_destroy (json_otherwise (RequestError ''404'') example_upgrading_jsonLoader)) \<and>
   trace (json_destroy (json_otherwise (RequestError ''404'') example_upgrading_jsonLoader)) =
     [StateSet LOADING,
      CacheLoad example_external_buffer,
      CacheUnload example_external_buffer,
      StateSet FAILED,
      PromiseReject (LoaderError ''Failed to load glTF: m.gltf'' (RequestError ''404'')),
      CacheUnload example_external_buffer,
      StateSet DESTROYED] \<and>
   events_since example_upgrading_jsonLoader
     (json_unload (json_unload example_upgrading_jsonLoader)) =
     [CacheUnload example_external_buffer, CacheUnload example_external_buffer] \<and>
   bv_unload (bv_unload (bv_load example_bufferViewLoader)) =
     bv_unload (bv_load example_bufferViewLoader) \<and>
   img_unload (img_unload (img_load example_imageLoader)) =
     img_unload (img_load example_imageLoader) \<and>
   draco_unload (draco_unload (draco_load example_dracoLoader)) =
     draco_unload (draco_load example_dracoLoader)"
proof -
  have twice: "events_since example_upgrading_jsonLoader
      (json_unload (json_unload example_upgrading_jsonLoader)) =
      [CacheUnload example_external_buffer, CacheUnload example_external_buffer]"
    by (simp add: json_unload_twice) (simp add: example_upgrading_jsonLoader_def)
  show ?thesis
    unfolding twice
    by (simp add: single_child_unload_twice upgradeVersion_def
        example_legacy_gltf_def example_upgrading_jsonLoader_def example_external_buffer_def
        json_load_def example_jsonLoader_def GltfJsonLoader_new_def set_state_def cache_load_def
        call_def json_destroy_def json_otherwise_def Let_def reject_def getError_def
        destroyObject_def json_unload_eq)
qed

section \<open>Accessors without a buffer view\<close>

lemma loadVertexBuffer_none:
  assumes "at (gltf_accessors g) accessorId = Some accessor"
    and "acc_bufferView accessor = None"
  shows "loadVertexBuffer loader g accessorId semantic None = ([], Inr None)"
  using assms by (simp add: loadVertexBuffer_def)

lemma loadVertexAttribute_no_bufferView_throws:
  assumes "at (gltf_accessors g) accessorId = Some accessor"
    and "acc_bufferView accessor = None"
  shows "\<exists>evs e. loadVertexAttribute loader g accessorId semantic draco = (evs, Inl e)"
  using assms
  by (cases "gltf_bufferViews g"; cases draco)
     (simp_all add: loadVertexAttribute_def loadVertexBuffer_def Let_def)

lemma loadIndices_no_bufferView:
  assumes "at (gltf_accessors g) accessorId = Some accessor"
    and "acc_bufferView accessor = None"
  shows "loadIndices loader g accessorId None =
           ([], Inr \<lparr>ind_constantValue = Some 0,
                     ind_indexDatatype = acc_componentType accessor,
                     ind_count = acc_count accessor, ind_cacheResource = None\<rparr>)"
  using assms by (simp add: loadIndices_def loadIndexBuffer_def)

lemma loadIndices_with_data:
  assumes "at (gltf_accessors g) accessorId = Some accessor"
    and "acc_bufferView accessor \<noteq> None \<or> draco \<noteq> None"
  shows "\<exists>r. loadIndices loader g accessorId draco =
           ([CacheLoad r], Inr \<lparr>ind_constantValue = None,
                               ind_indexDatatype = acc_componentType accessor,
                               ind_count = acc_count accessor, ind_cacheResource = Some r\<rparr>)"
  using assms by (auto simp: loadIndices_def loadIndexBuffer_def Let_def)

text \<open>
  Claim C8, at a failing input. The document has one accessor, without a buffer view,
  and no Draco extension is passed. \<^verbatim>\<open>loadVertexBuffer\<close> issues no loader and returns
  \<^verbatim>\<open>undefined\<close>, and \<^verbatim>\<open>loadIndices\<close> returns a record with constant value 0 and no cache
  resource; but \<^verbatim>\<open>loadVertexAttribute\<close> does not return: after it has computed the
  constant value it reads \<^verbatim>\<open>byteStride\<close> of the buffer view, which is \<^verbatim>\<open>undefined\<close>, and
  throws a \<^verbatim>\<open>TypeError\<close>. With a Draco extension and no buffer view on the accessor it
  throws in the same place, after the vertex buffer loader has been requested.
\<close>

theorem C8_vertex_attribute_without_bufferView_throws:
  "loadVertexBuffer example_gltfLoader example_constant_gltf 0 ''POSITION'' None =
     ([], Inr None) \<and>
   loadVertexAttribute example_gltfLoader example_constant_gltf 0 ''POSITION'' None =
     ([], Inl (TypeError ''Cannot read properties of undefined'')) \<and>
   loadVertexAttribute example_gltfLoader example_constant_gltf 0 ''POSITION'' (Some 0) =
     ([CacheLoad (LoadVertexBuffer None (Some 0) ''POSITION'' (Resource ''m.gltf'')
                    (Resource ''m.gltf'') False True)],
      Inl (TypeError ''Cannot read properties of undefined'')) \<and>
   loadIndices example_gltfLoader example_constant_gltf 0 None =
     ([], Inr \<lparr>ind_constantValue = Some 0, ind_indexDatatype = 5126, ind_count = 3,
               ind_cacheResource = None\<rparr>)"
  by (simp add: loadVertexAttribute_def loadVertexBuffer_def loadIndices_def
      loadIndexBuffer_def example_gltfLoader_def example_constant_gltf_def at_def Let_def)

section \<open>The Draco loader across frames\<close>

lemma draco_update_waits:
  "draco_bufferViewTypedArray l = None \<Longrightarrow> draco_update l = l"
  "draco_decodePromise l \<noteq> None \<Longrightarrow> draco_update l = l"
  by (simp_all add: draco_update_def draco_update_with_def)

lemma draco_update_with_None: "draco_update_with None l = l"
  by (simp add: draco_update_with_def)

lemma draco_update_decodes:
  assumes "draco_bufferViewTypedArray l \<noteq> None" and "draco_decodePromise l = None"
  shows "draco_update l = (draco_then_decoded None l)\<lparr>draco_decodePromise := Some when_resolve\<rparr>"
proof -
  from assms(1) obtain y where "draco_bufferViewTypedArray l = Some y" by auto
  with assms(2) show ?thesis
    by (simp add: draco_update_def draco_update_with_def draco_decode_settles_def
        when_resolve_def)
qed

lemma draco_then_decoded_ready:
  assumes "state l \<noteq> DESTROYED"
  shows "state (draco_then_decoded d l) = READY"
    and "promise (draco_then_decoded d l) = (if promise l = Pending then Resolved else promise l)"
    and "draco_decodedData (draco_then_decoded d l) = d"
    and "draco_bufferViewLoader (draco_then_decoded d l) = None"
    and "draco_bufferViewTypedArray (draco_then_decoded d l) = None"
    and "events_since l (draco_then_decoded d l) =
           map CacheUnload (held (draco_bufferViewLoader l)) @ [StateSet READY, PromiseResolve]"
  using assms
  by (simp_all add: draco_then_decoded_def resolve_def set_state_def draco_unload_eq
      events_since_def)

lemma draco_decode_settles_not_processing:
  assumes "state l \<noteq> PROCESSING"
  shows "state (draco_decode_settles p l) \<noteq> PROCESSING"
  using assms
  by (cases p; cases "state l = DESTROYED")
     (simp_all add: draco_decode_settles_def otherwise_overwrites_state
        draco_then_decoded_def unload_keeps resolve_def set_state_def)

lemma draco_update_not_processing:
  assumes "state l \<noteq> PROCESSING"
  shows "state (draco_update l) \<noteq> PROCESSING"
proof (cases "draco_bufferViewTypedArray l = None \<or> draco_decodePromise l \<noteq> None")
  case True
  then have "draco_update l = l" using draco_update_waits [of l] by blast
  with assms show ?thesis by simp
next
  case False
  then obtain y where "draco_bufferViewTypedArray l = Some y" "draco_decodePromise l = None"
    by auto
  then have "state (draco_update l) = state (draco_decode_settles when_resolve l)"
    by (simp add: draco_update_def draco_update_with_def)
  with draco_decode_settles_not_processing [OF assms] show ?thesis by simp
qed

lemma draco_step_not_processing:
  assumes "state l \<noteq> PROCESSING"
  shows "state (draco_step e l) \<noteq> PROCESSING"
proof (cases e)
  case CallLoad
  then show ?thesis
    using assms by (simp add: call_def draco_load_def cache_load_def set_state_def)
next
  case (BufferViewFulfilled t)
  then show ?thesis
    using assms by (simp add: draco_then_bufferView_def unload_keeps)
next
  case (BufferViewRejected x)
  then show ?thesis
    by (simp add: otherwise_overwrites_state)
next
  case CallUpdate
  then show ?thesis
    using assms draco_update_not_processing [OF assms] by (simp add: call_def)
next
  case CallDestroy
  then show ?thesis
    using assms by (simp add: call_def destroy_fields)
qed

lemma draco_run_not_processing:
  assumes "state l \<noteq> PROCESSING"
  shows "state (draco_run evs l) \<noteq> PROCESSING"
  using assms
proof (induction evs arbitrary: l)
  case Nil
  then show ?case by (simp add: draco_run_def)
next
  case (Cons e evs)
  from Cons.prems have "state (draco_step e l) \<noteq> PROCESSING"
    by (rule draco_step_not_processing)
  then have "state (draco_run evs (draco_step e l)) \<noteq> PROCESSING"
    by (rule Cons.IH)
  then show ?case by (simp add: draco_run_def)
qed

text \<open>
  Claim C6 as stated fails: the example Draco loader is loaded and its buffer view
  arrives. The bytes are there, and the state is LOADING, not PROCESSING. The first
  \<^verbatim>\<open>update\<close> takes it straight to READY, and a second \<^verbatim>\<open>update\<close> changes nothing: no
  \<^verbatim>\<open>update\<close> call finds or leaves the loader in PROCESSING.
\<close>

theorem C6_not_processing_counterexample:
  "draco_bufferViewTypedArray
     (draco_then_bufferView (Some \<lparr>ta_buffer = 0, ta_byteOffset = 1, ta_length = 3\<rparr>)
        (draco_load example_dracoLoader)) =
     Some \<lparr>ta_buffer = 0, ta_byteOffset = 1, ta_length = 3\<rparr> \<and>
   state
     (draco_then_bufferView (Some \<lparr>ta_buffer = 0, ta_byteOffset = 1, ta_length = 3\<rparr>)
        (draco_load example_dracoLoader)) = LOADING \<and>
   state
     (draco_then_bufferView (Some \<lparr>ta_buffer = 0, ta_byteOffset = 1, ta_length = 3\<rparr>)
        (draco_load example_dracoLoader)) \<noteq> PROCESSING \<and>
   state
     (draco_update
        (draco_then_bufferView (Some \<lparr>ta_buffer = 0, ta_byteOffset = 1, ta_length = 3\<rparr>)
           (draco_load example_dracoLoader))) = READY \<and>
   state
     (draco_update
        (draco_then_bufferView (Some \<lparr>ta_buffer = 0, ta_byteOffset = 1, ta_length = 3\<rparr>)
           (draco_load example_dracoLoader))) \<noteq> PROCESSING \<and>
   draco_update (draco_update
     (draco_then_bufferView (Some \<lparr>ta_buffer = 0, ta_byteOffset = 1, ta_length = 3\<rparr>)
        (draco_load example_dracoLoader))) =
   draco_update
     (draco_then_bufferView (Some \<lparr>ta_buffer = 0, ta_byteOffset = 1, ta_length = 3\<rparr>)
        (draco_load example_dracoLoader))"
  by (simp add: draco_update_def draco_update_with_def draco_decode_settles_def when_resolve_def
      draco_then_decoded_def draco_unload_eq resolve_def draco_then_bufferView_def
      draco_load_def cache_load_def set_state_def example_dracoLoader_def
      GltfDracoLoader_new_def)

text \<open>
  Claim C6, amended. A Draco loader is never in the state PROCESSING, whatever happens
  to it after its construction. \<^verbatim>\<open>load\<close> sets LOADING; when the buffer view arrives in
  that state the loader keeps the bytes and stays LOADING, adding no event. \<^verbatim>\<open>update\<close>
  changes nothing while the bytes are not there, once a decode promise has been stored,
  or when no task could be scheduled. Otherwise, on a loader in the state LOADING, the
  decode task it obtains is complete already, and within that \<^verbatim>\<open>update\<close> call the loader
  releases the buffer view reference, drops the source bytes, keeps the decoded data
  (\<^verbatim>\<open>undefined\<close>, from \<^verbatim>\<open>when.resolve()\<close>), writes READY, resolves its promise and stores
  the decode promise. The decode continuation does the same for any decoded data it is
  handed.
\<close>

theorem C6_draco_decodes_in_loading:
  assumes "state l = LOADING"
  shows
    "state (draco_run evs (GltfDracoLoader_new gltfResource baseResource g bufferView)) \<noteq> PROCESSING \<and>
     state (draco_load l0) = LOADING \<and>
     state (draco_then_bufferView (Some ta) l) = LOADING \<and>
     draco_bufferViewTypedArray (draco_then_bufferView (Some ta) l) = Some ta \<and>
     events_since l (draco_then_bufferView (Some ta) l) = [] \<and>
     (draco_bufferViewTypedArray x = None \<longrightarrow> draco_update x = x) \<and>
     (draco_decodePromise x \<noteq> None \<longrightarrow> draco_update x = x) \<and>
     draco_update_with None x = x \<and>
     (draco_bufferViewTypedArray l \<noteq> None \<and> draco_decodePromise l = None \<longrightarrow>
        draco_update l = (draco_then_decoded None l)\<lparr>draco_decodePromise := Some when_resolve\<rparr> \<and>
        state (draco_update l) = READY \<and>
        promise (draco_update l) = (if promise l = Pending then Resolved else promise l) \<and>
        draco_decodedData (draco_update l) = None \<and>
        draco_bufferViewLoader (draco_update l) = None \<and>
        draco_bufferViewTypedArray (draco_update l) = None \<and>
        draco_decodePromise (draco_update l) = Some when_resolve \<and>
        events_since l (draco_update l) =
          map CacheUnload (held (draco_bufferViewLoader l)) @ [StateSet READY, PromiseResolve]) \<and>
     state (draco_then_decoded d l) = READY \<and>
     promise (draco_then_decoded d l) = (if promise l = Pending then Resolved else promise l) \<and>
     draco_decodedData (draco_then_decoded d l) = d \<and>
     draco_bufferViewLoader (draco_then_decoded d l) = None \<and>
     draco_bufferViewTypedArray (draco_then_decoded d l) = None \<and>
     events_since l (draco_then_decoded d l) =
       map CacheUnload (held (draco_bufferViewLoader l)) @ [StateSet READY, PromiseResolve]"
proof -
  have nd: "state l \<noteq> DESTROYED" using assms by simp
  have new: "state (GltfDracoLoader_new gltfResource baseResource g bufferView) \<noteq> PROCESSING"
    by (simp add: GltfDracoLoader_new_def)
  have a: "state (draco_load l0) = LOADING"
    by (simp add: draco_load_def cache_load_def set_state_def)
  have b: "state (draco_then_bufferView (Some ta) l) = LOADING"
    "draco_bufferViewTypedArray (draco_then_bufferView (Some ta) l) = Some ta"
    "events_since l (draco_then_bufferView (Some ta) l) = []"
    using assms by (simp_all add: draco_then_bufferView_def events_since_def)
  note r = draco_then_decoded_ready [OF nd]
  have u: "draco_bufferViewTypedArray l \<noteq> None \<and> draco_decodePromise l = None \<longrightarrow>
        draco_update l = (draco_then_decoded None l)\<lparr>draco_decodePromise := Some when_resolve\<rparr> \<and>
        state (draco_update l) = READY \<and>
        promise (draco_update l) = (if promise l = Pending then Resolved else promise l) \<and>
        draco_decodedData (draco_update l) = None \<and>
        draco_bufferViewLoader (draco_update l) = None \<and>
        draco_bufferViewTypedArray (draco_update l) = None \<and>
        draco_decodePromise (draco_update l) = Some when_resolve \<and>
        events_since l (draco_update l) =
          map CacheUnload (held (draco_bufferViewLoader l)) @ [StateSet READY, PromiseResolve]"
  proof
    assume h: "draco_bufferViewTypedArray l \<noteq> None \<and> draco_decodePromise l = None"
    then have e: "draco_update l =
        (draco_then_decoded None l)\<lparr>draco_decodePromise := Some when_resolve\<rparr>"
      by (simp add: draco_update_decodes)
    have ev: "events_since l (draco_update l) = events_since l (draco_then_decoded None l)"
      by (simp add: e events_since_def)
    show "draco_update l = (draco_then_decoded None l)\<lparr>draco_decodePromise := Some when_resolve\<rparr> \<and>
        state (draco_update l) = READY \<and>
        promise (draco_update l) = (if promise l = Pending then Resolved else promise l) \<and>
        draco_decodedData (draco_update l) = None \<and>
        draco_bufferViewLoader (draco_update l) = None \<and>
        draco_bufferViewTypedArray (draco_update l) = None \<and>
        draco_decodePromise (draco_update l) = Some when_resolve \<and>
        events_since l (draco_update l) =
          map CacheUnload (held (draco_bufferViewLoader l)) @ [StateSet READY, PromiseResolve]"
      using r [of None] ev by (simp add: e)
  qed
  show ?thesis
    using draco_run_not_processing [OF new, of evs] a b u
      draco_update_waits [of x] draco_update_with_None [of x] r [of d]
    by blast
qed

theorem C6_draco_decodes_in_loading_witness:
  "state (draco_load example_dracoLoader) = LOADING \<and>
   draco_bufferViewTypedArray (draco_load example_dracoLoader) = None \<and>
   draco_update (draco_load example_dracoLoader) = draco_load example_dracoLoader \<and>
   state (draco_then_bufferView (Some \<lparr>ta_buffer = 0, ta_byteOffset = 1, ta_length = 3\<rparr>)
            (draco_load example_dracoLoader)) = LOADING \<and>
   draco_bufferViewTypedArray
     (draco_then_bufferView (Some \<lparr>ta_buffer = 0, ta_byteOffset = 1, ta_length = 3\<rparr>)
        (draco_load example_dracoLoader)) \<noteq> None \<and>
   draco_decodePromise
     (draco_then_bufferView (Some \<lparr>ta_buffer = 0, ta_byteOffset = 1, ta_length = 3\<rparr>)
        (draco_load example_dracoLoader)) = None \<and>
   state (draco_update
            (draco_then_bufferView (Some \<lparr>ta_buffer = 0, ta_byteOffset = 1, ta_length = 3\<rparr>)
               (draco_load example_dracoLoader))) = READY \<and>
   promise (draco_update
              (draco_then_bufferView (Some \<lparr>ta_buffer = 0, ta_byteOffset = 1, ta_length = 3\<rparr>)
                 (draco_load example_dracoLoader))) = Resolved \<and>
   draco_bufferViewTypedArray
     (draco_update
        (draco_then_bufferView (Some \<lparr>ta_buffer = 0, ta_byteOffset = 1, ta_length = 3\<rparr>)
           (draco_load example_dracoLoader))) = None \<and>
   draco_decodePromise
     (draco_update
        (draco_then_bufferView (Some \<lparr>ta_buffer = 0, ta_byteOffset = 1, ta_length = 3\<rparr>)
           (draco_load example_dracoLoader))) \<noteq> None \<and>
   events_since
     (draco_then_bufferView (Some \<lparr>ta_buffer = 0, ta_byteOffset = 1, ta_length = 3\<rparr>)
        (draco_load example_dracoLoader))
     (draco_update
        (draco_then_bufferView (Some \<lparr>ta_buffer = 0, ta_byteOffset = 1, ta_length = 3\<rparr>)
           (draco_load example_dracoLoader))) =
     [CacheUnload (LoadBufferView (Some 0) (Resource ''m.gltf'') (Resource ''m.gltf'') False),
      StateSet READY, PromiseResolve] \<and>
   draco_update (draco_update
     (draco_then_bufferView (Some \<lparr>ta_buffer = 0, ta_byteOffset = 1, ta_length = 3\<rparr>)
        (draco_load example_dracoLoader))) =
   draco_update
     (draco_then_bufferView (Some \<lparr>ta_buffer = 0, ta_byteOffset = 1, ta_length = 3\<rparr>)
        (draco_load example_dracoLoader)) \<and>
   state (draco_run [CallLoad,
                     BufferViewFulfilled (Some \<lparr>ta_buffer = 0, ta_byteOffset = 1, ta_length = 3\<rparr>),
                     CallUpdate, CallUpdate]
            (GltfDracoLoader_new (Resource ''m.gltf'') (Resource ''m.gltf'') example_gltf (Some 0)))
     \<noteq> PROCESSING"
proof -
  let ?ta = "\<lparr>ta_buffer = 0, ta_byteOffset = 1, ta_length = 3\<rparr>"
  let ?l1 = "draco_load example_dracoLoader"
  let ?l2 = "draco_then_bufferView (Some ?ta) ?l1"
  let ?l3 = "draco_update ?l2"
  let ?evs = "[CallLoad, BufferViewFulfilled (Some ?ta), CallUpdate, CallUpdate]"
  have s1: "state ?l1 = LOADING"
    by (simp add: draco_load_def cache_load_def set_state_def)
  have s2: "state ?l2 = LOADING"
    by (simp add: draco_then_bufferView_def s1)
  have f1: "draco_bufferViewTypedArray ?l1 = None"
    by (simp add: draco_load_def cache_load_def set_state_def example_dracoLoader_def
        GltfDracoLoader_new_def)
  have f2: "draco_bufferViewTypedArray ?l2 \<noteq> None" "draco_decodePromise ?l2 = None"
    "promise ?l2 = Pending"
    "held (draco_bufferViewLoader ?l2) =
       [LoadBufferView (Some 0) (Resource ''m.gltf'') (Resource ''m.gltf'') False]"
    by (simp_all add: draco_then_bufferView_def s1 draco_load_def cache_load_def set_state_def
        example_dracoLoader_def GltfDracoLoader_new_def)
  note t1 = C6_draco_decodes_in_loading [OF s1, where x = ?l1 and evs = ?evs
      and gltfResource = "Resource ''m.gltf''" and baseResource = "Resource ''m.gltf''"
      and g = example_gltf and bufferView = "Some 0" and ?l0.0 = example_dracoLoader
      and ta = ?ta and d = None]
  note t2 = C6_draco_decodes_in_loading [OF s2, where x = ?l3 and evs = "[]"
      and gltfResource = "Resource ''m.gltf''" and baseResource = "Resource ''m.gltf''"
      and g = example_gltf and bufferView = "Some 0" and ?l0.0 = example_dracoLoader
      and ta = ?ta and d = None]
  from t1 f1 have a: "draco_update ?l1 = ?l1" by blast
  from t2 f2(1,2) have u: "state ?l3 = READY \<and>
      promise ?l3 = (if promise ?l2 = Pending then Resolved else promise ?l2) \<and>
      draco_bufferViewTypedArray ?l3 = None \<and> draco_decodePromise ?l3 = Some when_resolve \<and>
      events_since ?l2 ?l3 =
        map CacheUnload (held (draco_bufferViewLoader ?l2)) @ [StateSet READY, PromiseResolve]"
    by blast
  from u f2(3,4) have b: "state ?l3 = READY" "promise ?l3 = Resolved"
    "draco_bufferViewTypedArray ?l3 = None" "draco_decodePromise ?l3 = Some when_resolve"
    "events_since ?l2 ?l3 =
       [CacheUnload (LoadBufferView (Some 0) (Resource ''m.gltf'') (Resource ''m.gltf'') False),
        StateSet READY, PromiseResolve]"
    by simp_all
  from b(4) have n: "draco_decodePromise ?l3 \<noteq> None" by simp
  from t2 n have c: "draco_update ?l3 = ?l3" by blast
  from t1 have e: "state (draco_run ?evs
      (GltfDracoLoader_new (Resource ''m.gltf'') (Resource ''m.gltf'') example_gltf (Some 0)))
      \<noteq> PROCESSING"
    by blast
  from s1 f1 a s2 f2(1,2) b(1,2,3) n b(5) c e show ?thesis by blast
qed

section \<open>External buffers of a legacy document\<close>

lemma external_requests_not_resident:
  "list_all (\<lambda>r. keepResident_of r = False) (external_requests base bs)"
  by (induction bs) (simp_all split: option.splits)

lemma external_requests_cover:
  assumes "b \<in> set bs" and "buf_uri b = Some u" and "buf_source b = None"
  shows "LoadExternalBuffer (Derived base u) False \<in> set (external_requests base bs)"
  using assms by (induction bs) (auto split: option.splits)

text \<open>
  Claim C7 as stated fails: the example JSON loader upgrades the legacy document, which
  has one external buffer. The buffer is requested with \<^verbatim>\<open>keepResident\<close> false; it arrives,
  \<^verbatim>\<open>updateVersion\<close> runs, the embedded buffers are looked at and the loader becomes READY.
  At no point was the reference released: the trace has no \<^verbatim>\<open>unload\<close> call, and the
  handle is still in \<^verbatim>\<open>_bufferLoaders\<close>.
\<close>

theorem C7_not_released_after_upgrade_counterexample:
  "upgradeVersion example_legacy_gltf (json_load example_jsonLoader) =
     Inr example_upgrading_jsonLoader \<and>
   gltf_asset example_upgraded_gltf = Some (Some ''2.0'') \<and>
   state (json_then_processed (Some example_upgraded_gltf)
            (loadEmbeddedBuffers example_upgraded_gltf example_upgrading_jsonLoader)) = READY \<and>
   trace (json_then_processed (Some example_upgraded_gltf)
            (loadEmbeddedBuffers example_upgraded_gltf example_upgrading_jsonLoader)) =
     [StateSet LOADING, CacheLoad example_external_buffer, StateSet READY, PromiseResolve] \<and>
   CacheUnload example_external_buffer \<notin>
     set (trace (json_then_processed (Some example_upgraded_gltf)
                   (loadEmbeddedBuffers example_upgraded_gltf example_upgrading_jsonLoader))) \<and>
   json_bufferLoaders
     (json_then_processed (Some example_upgraded_gltf)
        (loadEmbeddedBuffers example_upgraded_gltf example_upgrading_jsonLoader)) =
     [example_external_buffer]"
  by (simp add: upgradeVersion_def example_legacy_gltf_def example_upgrading_jsonLoader_def
      example_external_buffer_def example_upgraded_gltf_def upgradeVersion_then_def
      loadEmbeddedBuffers_def json_then_processed_def json_load_def example_jsonLoader_def
      GltfJsonLoader_new_def set_state_def resolve_def cache_load_def)

text \<open>
  Claim C7, amended. When the JSON loader upgrades a document whose version is not
  2.0, it requests from the cache, with \<^verbatim>\<open>keepResident\<close> false, one external buffer loader
  for every buffer that has a uri and no source yet, in order, and pushes each on
  \<^verbatim>\<open>_bufferLoaders\<close>; it releases nothing. Nothing that follows the upgrade releases
  them either: \<^verbatim>\<open>loadEmbeddedBuffers\<close> only requests and pushes more loaders, and the
  last \<^verbatim>\<open>then\<close>, on a loader that was not destroyed, only writes READY and resolves,
  with all of them still in \<^verbatim>\<open>_bufferLoaders\<close>. The references are held until the
  loader's \<^verbatim>\<open>unload\<close> runs, on failure or on destroy: it makes one \<^verbatim>\<open>unload\<close> call on the
  cache per entry of \<^verbatim>\<open>_bufferLoaders\<close>, before the state is written.
\<close>

theorem C7_external_buffers_held_until_unload:
  assumes "gltf_asset g = Some version" and "version \<noteq> Some ''2.0''"
  shows
    "upgradeVersion g l = Inr (upgradeVersion_buffers (gltf_buffers g) l) \<and>
     events_since l (upgradeVersion_buffers (gltf_buffers g) l) =
       map CacheLoad (external_requests (json_baseResource l) (gltf_buffers g)) \<and>
     json_bufferLoaders (upgradeVersion_buffers (gltf_buffers g) l) =
       json_bufferLoaders l @ external_requests (json_baseResource l) (gltf_buffers g) \<and>
     list_all (\<lambda>r. keepResident_of r = False)
       (external_requests (json_baseResource l) (gltf_buffers g)) \<and>
     (\<forall>b u. b \<in> set (gltf_buffers g) \<and> buf_uri b = Some u \<and> buf_source b = None \<longrightarrow>
        CacheLoad (LoadExternalBuffer (Derived (json_baseResource l) u) False) \<in>
          set (events_since l (upgradeVersion_buffers (gltf_buffers g) l))) \<and>
     events_since l (loadEmbeddedBuffers g2 (upgradeVersion_buffers (gltf_buffers g) l)) =
       map CacheLoad (external_requests (json_baseResource l) (gltf_buffers g)) @
       map CacheLoad (embedded_requests (json_gltfResource l) (json_keepResident l) 0 (gltf_buffers g2)) \<and>
     json_bufferLoaders (loadEmbeddedBuffers g2 (upgradeVersion_buffers (gltf_buffers g) l)) =
       json_bufferLoaders l @ external_requests (json_baseResource l) (gltf_buffers g) @
       embedded_requests (json_gltfResource l) (json_keepResident l) 0 (gltf_buffers g2) \<and>
     (state l \<noteq> DESTROYED \<longrightarrow>
        state (json_then_processed (Some g2) (loadEmbeddedBuffers g2 (upgradeVersion_buffers (gltf_buffers g) l))) = READY \<and>
        events_since l (json_then_processed (Some g2) (loadEmbeddedBuffers g2 (upgradeVersion_buffers (gltf_buffers g) l))) =
          map CacheLoad (external_requests (json_baseResource l) (gltf_buffers g)) @
          map CacheLoad (embedded_requests (json_gltfResource l) (json_keepResident l) 0 (gltf_buffers g2)) @
          [StateSet READY, PromiseResolve] \<and>
        json_bufferLoaders (json_then_processed (Some g2) (loadEmbeddedBuffers g2 (upgradeVersion_buffers (gltf_buffers g) l))) =
          json_bufferLoaders l @ external_requests (json_baseResource l) (gltf_buffers g) @
          embedded_requests (json_gltfResource l) (json_keepResident l) 0 (gltf_buffers g2) \<and>
        events_since (json_then_processed (Some g2) (loadEmbeddedBuffers g2 (upgradeVersion_buffers (gltf_buffers g) l)))
          (json_destroy (json_then_processed (Some g2) (loadEmbeddedBuffers g2 (upgradeVersion_buffers (gltf_buffers g) l)))) =
          map CacheUnload
            (json_bufferLoaders l @ external_requests (json_baseResource l) (gltf_buffers g) @
             embedded_requests (json_gltfResource l) (json_keepResident l) 0 (gltf_buffers g2)) @
          [StateSet DESTROYED]) \<and>
     events_since (upgradeVersion_buffers (gltf_buffers g) l)
       (json_unload (upgradeVersion_buffers (gltf_buffers g) l)) =
       map CacheUnload (json_bufferLoaders l @ external_requests (json_baseResource l) (gltf_buffers g)) \<and>
     events_since (upgradeVersion_buffers (gltf_buffers g) l)
       (json_otherwise e (upgradeVersion_buffers (gltf_buffers g) l)) =
       map CacheUnload (json_bufferLoaders l @ external_requests (json_baseResource l) (gltf_buffers g)) @
       [StateSet FAILED, PromiseReject (getError e (''Failed to load glTF: '' @ url (json_gltfResource l)))] \<and>
     events_since (upgradeVersion_buffers (gltf_buffers g) l)
       (json_destroy (upgradeVersion_buffers (gltf_buffers g) l)) =
       map CacheUnload (json_bufferLoaders l @ external_requests (json_baseResource l) (gltf_buffers g)) @
       [StateSet DESTROYED]"
proof -
  let ?u = "upgradeVersion_buffers (gltf_buffers g) l"
  let ?reqs = "external_requests (json_baseResource l) (gltf_buffers g)"
  let ?emb = "embedded_requests (json_gltfResource l) (json_keepResident l) 0 (gltf_buffers g2)"
  have u: "?u = l\<lparr>trace := trace l @ map CacheLoad ?reqs,
                     json_bufferLoaders := json_bufferLoaders l @ ?reqs\<rparr>"
    by (rule upgradeVersion_buffers_eq)
  have l2: "loadEmbeddedBuffers g2 ?u =
      l\<lparr>trace := trace l @ map CacheLoad ?reqs @ map CacheLoad ?emb,
        json_bufferLoaders := json_bufferLoaders l @ ?reqs @ ?emb\<rparr>"
    by (simp add: loadEmbeddedBuffers_def loadEmbeddedBuffers_from_eq u)
  have a: "upgradeVersion g l = Inr ?u"
    using assms by (simp add: upgradeVersion_def)
  have b: "events_since l ?u = map CacheLoad ?reqs"
    "json_bufferLoaders ?u = json_bufferLoaders l @ ?reqs"
    by (simp_all add: u events_since_def)
  have c: "events_since l (loadEmbeddedBuffers g2 ?u) = map CacheLoad ?reqs @ map CacheLoad ?emb"
    "json_bufferLoaders (loadEmbeddedBuffers g2 ?u) = json_bufferLoaders l @ ?reqs @ ?emb"
    by (simp_all add: l2 events_since_def)
  have d: "state l \<noteq> DESTROYED \<longrightarrow>
        state (json_then_processed (Some g2) (loadEmbeddedBuffers g2 ?u)) = READY \<and>
        events_since l (json_then_processed (Some g2) (loadEmbeddedBuffers g2 ?u)) =
          map CacheLoad ?reqs @ map CacheLoad ?emb @ [StateSet READY, PromiseResolve] \<and>
        json_bufferLoaders (json_then_processed (Some g2) (loadEmbeddedBuffers g2 ?u)) =
          json_bufferLoaders l @ ?reqs @ ?emb \<and>
        events_since (json_then_processed (Some g2) (loadEmbeddedBuffers g2 ?u))
          (json_destroy (json_then_processed (Some g2) (loadEmbeddedBuffers g2 ?u))) =
          map CacheUnload (json_bufferLoaders l @ ?reqs @ ?emb) @ [StateSet DESTROYED]"
    by (simp add: l2 json_then_processed_def resolve_def set_state_def events_since_def
        json_destroy_def destroyObject_def json_unload_eq)
  have e: "events_since ?u (json_unload ?u) = map CacheUnload (json_bufferLoaders l @ ?reqs)"
    "events_since ?u (json_otherwise e ?u) =
       map CacheUnload (json_bufferLoaders l @ ?reqs) @
       [StateSet FAILED, PromiseReject (getError e (''Failed to load glTF: '' @ url (json_gltfResource l)))]"
    "events_since ?u (json_destroy ?u) =
       map CacheUnload (json_bufferLoaders l @ ?reqs) @ [StateSet DESTROYED]"
    by (simp_all add: u json_otherwise_def json_destroy_def Let_def reject_def set_state_def
        destroyObject_def json_unload_eq events_since_def)
  have f: "\<forall>b u. b \<in> set (gltf_buffers g) \<and> buf_uri b = Some u \<and> buf_source b = None \<longrightarrow>
        CacheLoad (LoadExternalBuffer (Derived (json_baseResource l) u) False) \<in>
          set (events_since l ?u)"
    using external_requests_cover [of _ "gltf_buffers g" _ "json_baseResource l"]
    by (auto simp: b(1))
  have k: "list_all (\<lambda>r. keepResident_of r = False) ?reqs"
    by (rule external_requests_not_resident)
  from a b c d e f k show ?thesis by blast
qed

theorem C7_external_buffers_held_until_unload_witness:
  "gltf_asset example_legacy_gltf = Some (Some ''1.0'') \<and>
   Some ''1.0'' \<noteq> Some ''2.0'' \<and>
   state (json_load example_jsonLoader) \<noteq> DESTROYED \<and>
   upgradeVersion example_legacy_gltf (json_load example_jsonLoader) =
     Inr (upgradeVersion_buffers (gltf_buffers example_legacy_gltf)
            (json_load example_jsonLoader)) \<and>
   events_since (json_load example_jsonLoader)
     (upgradeVersion_buffers (gltf_buffers example_legacy_gltf) (json_load example_jsonLoader)) =
     [CacheLoad (LoadExternalBuffer (Derived (Resource ''m.gltf'') ''b.bin'') False)] \<and>
   \<lparr>buf_uri = Some ''b.bin'', buf_source = None\<rparr> \<in> set (gltf_buffers example_legacy_gltf) \<and>
   CacheLoad (LoadExternalBuffer (Derived (Resource ''m.gltf'') ''b.bin'') False) \<in>
     set (events_since (json_load example_jsonLoader)
            (upgradeVersion_buffers (gltf_buffers example_legacy_gltf)
               (json_load example_jsonLoader))) \<and>
   state (json_then_processed (Some example_upgraded_gltf)
            (loadEmbeddedBuffers example_upgraded_gltf
               (upgradeVersion_buffers (gltf_buffers example_legacy_gltf)
                  (json_load example_jsonLoader)))) = READY \<and>
   events_since (json_load example_jsonLoader)
     (json_then_processed (Some example_upgraded_gltf)
        (loadEmbeddedBuffers example_upgraded_gltf
           (upgradeVersion_buffers (gltf_buffers example_legacy_gltf)
              (json_load example_jsonLoader)))) =
     [CacheLoad (LoadExternalBuffer (Derived (Resource ''m.gltf'') ''b.bin'') False),
      StateSet READY, PromiseResolve] \<and>
   events_since
     (json_then_processed (Some example_upgraded_gltf)
        (loadEmbeddedBuffers example_upgraded_gltf
           (upgradeVersion_buffers (gltf_buffers example_legacy_gltf)
              (json_load example_jsonLoader))))
     (json_destroy
        (json_then_processed (Some example_upgraded_gltf)
           (loadEmbeddedBuffers example_upgraded_gltf
              (upgradeVersion_buffers (gltf_buffers example_legacy_gltf)
                 (json_load example_jsonLoader))))) =
     [CacheUnload (LoadExternalBuffer (Derived (Resource ''m.gltf'') ''b.bin'') False),
      StateSet DESTROYED] \<and>
   events_since
     (upgradeVersion_buffers (gltf_buffers example_legacy_gltf) (json_load example_jsonLoader))
     (json_otherwise (RequestError ''404'')
        (upgradeVersion_buffers (gltf_buffers example_legacy_gltf)
           (json_load example_jsonLoader))) =
     [CacheUnload (LoadExternalBuffer (Derived (Resource ''m.gltf'') ''b.bin'') False),
      StateSet FAILED,
      PromiseReject (LoaderError ''Failed to load glTF: m.gltf'' (RequestError ''404''))]"
proof -
  let ?l = "json_load example_jsonLoader"
  have v: "gltf_asset example_legacy_gltf = Some (Some ''1.0'')"
    by (simp add: example_legacy_gltf_def)
  have n: "Some ''1.0'' \<noteq> Some ''2.0''" by simp
  have s: "state ?l \<noteq> DESTROYED"
    by (simp add: json_load_def set_state_def)
  have x: "external_requests (json_baseResource ?l) (gltf_buffers example_legacy_gltf) =
           [LoadExternalBuffer (Derived (Resource ''m.gltf'') ''b.bin'') False]"
    "embedded_requests (json_gltfResource ?l) (json_keepResident ?l) 0
       (gltf_buffers example_upgraded_gltf) = []"
    "json_bufferLoaders ?l = []"
    "url (json_gltfResource ?l) = ''m.gltf''"
    "json_baseResource ?l = Resource ''m.gltf''"
    by (simp_all add: example_legacy_gltf_def json_load_def set_state_def example_jsonLoader_def
        GltfJsonLoader_new_def example_upgraded_gltf_def upgradeVersion_then_def)
  have m: "\<lparr>buf_uri = Some ''b.bin'', buf_source = None\<rparr> \<in> set (gltf_buffers example_legacy_gltf)"
    by (simp add: example_legacy_gltf_def)
  note t = C7_external_buffers_held_until_unload [OF v n,
      where l = ?l and ?g2.0 = example_upgraded_gltf and e = "RequestError ''404''"]
  from t m have c: "CacheLoad (LoadExternalBuffer
        (Derived (json_baseResource ?l) ''b.bin'') False) \<in>
      set (events_since ?l (upgradeVersion_buffers (gltf_buffers example_legacy_gltf) ?l))"
    by (elim conjE allE [of _ "\<lparr>buf_uri = Some ''b.bin'', buf_source = None\<rparr>"]
        allE [of _ "''b.bin''"]) simp
  from t s have r: "state (json_then_processed (Some example_upgraded_gltf)
        (loadEmbeddedBuffers example_upgraded_gltf
           (upgradeVersion_buffers (gltf_buffers example_legacy_gltf) ?l))) = READY \<and>
      events_since ?l (json_then_processed (Some example_upgraded_gltf)
        (loadEmbeddedBuffers example_upgraded_gltf
           (upgradeVersion_buffers (gltf_buffers example_legacy_gltf) ?l))) =
        map CacheLoad (external_requests (json_baseResource ?l) (gltf_buffers example_legacy_gltf)) @
        map CacheLoad (embedded_requests (json_gltfResource ?l) (json_keepResident ?l) 0
          (gltf_buffers example_upgraded_gltf)) @ [StateSet READY, PromiseResolve] \<and>
      events_since
        (json_then_processed (Some example_upgraded_gltf)
          (loadEmbeddedBuffers example_upgraded_gltf
             (upgradeVersion_buffers (gltf_buffers example_legacy_gltf) ?l)))
        (json_destroy (json_then_processed (Some example_upgraded_gltf)
          (loadEmbeddedBuffers example_upgraded_gltf
             (upgradeVersion_buffers (gltf_buffers example_legacy_gltf) ?l)))) =
        map CacheUnload (json_bufferLoaders ?l @
          external_requests (json_baseResource ?l) (gltf_buffers example_legacy_gltf) @
          embedded_requests (json_gltfResource ?l) (json_keepResident ?l) 0
            (gltf_buffers example_upgraded_gltf)) @ [StateSet DESTROYED]"
    by blast
  from t v n s x m c r show ?thesis by (simp add: getError_def)
qed

section \<open>The query \<^verbatim>\<open>isDestroyed\<close>\<close>

lemma destroyed_unload:
  "destroyed (bv_unload b) = destroyed b" "destroyed (img_unload i) = destroyed i"
  "destroyed (json_unload j) = destroyed j" "destroyed (draco_unload d) = destroyed d"
  by (simp_all add: bv_unload_eq img_unload_eq json_unload_eq draco_unload_eq)

lemma destroyed_otherwise:
  "destroyed (bv_otherwise e b) = destroyed b"
  "destroyed (img_otherwise_bufferView e i) = destroyed i"
  "destroyed (img_otherwise_uri u e i) = destroyed i"
  "destroyed (json_otherwise e j) = destroyed j"
  "destroyed (draco_handleError e d) = destroyed d"
  by (simp_all add: bv_otherwise_def img_otherwise_bufferView_def img_otherwise_uri_def
      handleError_def json_otherwise_def draco_handleError_def Let_def reject_def set_state_def
      destroyed_unload)

lemma destroyed_bv_settle: "destroyed (bv_settle mem out b) = destroyed b"
proof (cases out)
  case (Failed e)
  then show ?thesis by (simp add: bv_settle_def destroyed_otherwise)
next
  case (Fulfilled a)
  show ?thesis
  proof (cases "bv_then mem a b")
    case (Inl e)
    with Fulfilled show ?thesis by (simp add: bv_settle_def destroyed_otherwise)
  next
    case (Inr b')
    then have "destroyed b' = destroyed b"
      by (auto simp: bv_then_def destroyed_unload resolve_def set_state_def
          split: if_splits option.splits sum.splits)
    with Fulfilled Inr show ?thesis by (simp add: bv_settle_def)
  qed
qed

lemma destroyed_img_settle:
  "destroyed (snd (img_settle_bufferView out i)) = destroyed i"
  "destroyed (img_settle_image iout i) = destroyed i"
proof -
  show "destroyed (snd (img_settle_bufferView out i)) = destroyed i"
  proof (cases out)
    case (Failed e)
    then show ?thesis by (simp add: img_settle_bufferView_def destroyed_otherwise)
  next
    case (Fulfilled a)
    show ?thesis
    proof (cases "img_then_bufferView a i")
      case (Inl e)
      with Fulfilled show ?thesis by (simp add: img_settle_bufferView_def destroyed_otherwise)
    next
      case (Inr r)
      then have "destroyed (snd r) = destroyed i"
        by (auto simp: img_then_bufferView_def destroyed_unload
            split: if_splits option.splits sum.splits)
      with Fulfilled Inr show ?thesis by (simp add: img_settle_bufferView_def)
    qed
  qed
  show "destroyed (img_settle_image iout i) = destroyed i"
    by (cases iout)
       (simp_all add: img_settle_image_def img_then_image_def destroyed_otherwise
          destroyed_unload resolve_def set_state_def)
qed

lemma destroyed_json_steps:
  "destroyed (json_load j) = destroyed j"
  "destroyed (snd (json_then_fetched ab j)) = destroyed j"
  "destroyed (upgradeVersion_buffers bs j) = destroyed j"
  "destroyed (loadEmbeddedBuffers g j) = destroyed j"
  "destroyed (json_then_processed og j) = destroyed j"
  by (simp_all add: json_load_def json_then_fetched_def upgradeVersion_buffers_eq
      loadEmbeddedBuffers_def loadEmbeddedBuffers_from_eq json_then_processed_def
      destroyed_unload resolve_def set_state_def)

lemma destroyed_draco_steps:
  "destroyed (draco_load d) = destroyed d"
  "destroyed (draco_then_bufferView ta d) = destroyed d"
  "destroyed (draco_update d) = destroyed d"
  "destroyed (draco_then_decoded dd d) = destroyed d"
  by (cases "draco_bufferViewTypedArray d = None \<or> draco_decodePromise d \<noteq> None")
     (auto simp: load_keeps draco_then_bufferView_def draco_update_def draco_update_with_def
        draco_decode_settles_def when_resolve_def draco_then_decoded_def destroyed_unload
        resolve_def set_state_def)

lemma destroyed_draco_decode_settles: "destroyed (draco_decode_settles p d) = destroyed d"
  by (cases p) (simp_all add: draco_decode_settles_def destroyed_draco_steps destroyed_otherwise)

lemma destroyed_destroy:
  "destroyed (bv_destroy b)" "destroyed (img_destroy i)"
  "destroyed (json_destroy j)" "destroyed (draco_destroy d)"
  by (simp_all add: bv_destroy_def img_destroy_def json_destroy_def draco_destroy_def
      destroyObject_def)

text \<open>
  Claim C9 as stated fails: each example loader is loaded and then destroyed, by a
  \<^verbatim>\<open>destroy\<close> call that returns normally; \<^verbatim>\<open>isDestroyed\<close> on the destroyed object answers
  true.
\<close>

theorem C9_isDestroyed_after_destroy_counterexample:
  "call bv_destroy (bv_load example_bufferViewLoader) =
     Inr (bv_destroy (bv_load example_bufferViewLoader)) \<and>
   isDestroyed (bv_destroy (bv_load example_bufferViewLoader)) = True \<and>
   call img_destroy (img_load example_imageLoader) =
     Inr (img_destroy (img_load example_imageLoader)) \<and>
   isDestroyed (img_destroy (img_load example_imageLoader)) = True \<and>
   call json_destroy (json_load example_jsonLoader) =
     Inr (json_destroy (json_load example_jsonLoader)) \<and>
   isDestroyed (json_destroy (json_load example_jsonLoader)) = True \<and>
   call draco_destroy (draco_load example_dracoLoader) =
     Inr (draco_destroy (draco_load example_dracoLoader)) \<and>
   isDestroyed (draco_destroy (draco_load example_dracoLoader)) = True"
  by (simp add: call_def isDestroyed_def destroyed_destroy load_keeps example_loaders_fresh)

text \<open>
  Claim C9, amended. The function \<^verbatim>\<open>isDestroyed\<close> on the prototype of each of the four
  loaders returns false whatever the loader's state. A loader as constructed answers
  false to \<^verbatim>\<open>isDestroyed()\<close>; the answer does not depend on the \<^verbatim>\<open>_state\<close> field; \<^verbatim>\<open>load\<close>,
  \<^verbatim>\<open>update\<close>, \<^verbatim>\<open>unload\<close> and every continuation, on success and on failure, leave the
  answer as it is; and after \<^verbatim>\<open>destroy\<close> the answer is true.
\<close>

theorem C9_isDestroyed_false_until_destroy:
  "prototype_isDestroyed b = False \<and> prototype_isDestroyed i = False \<and>
   prototype_isDestroyed j = False \<and> prototype_isDestroyed d = False \<and>
   isDestroyed (GltfBufferViewLoader_new r1 r2 u n bo bl) = False \<and>
   isDestroyed (GltfImageLoader_new r1 r2 g0 bvid iu) = False \<and>
   isDestroyed (GltfJsonLoader_new r1 r2 keep) = False \<and>
   isDestroyed (GltfDracoLoader_new r1 r2 g0 dv) = False \<and>
   isDestroyed (b\<lparr>state := s\<rparr>) = isDestroyed b \<and>
   isDestroyed (i\<lparr>state := s\<rparr>) = isDestroyed i \<and>
   isDestroyed (j\<lparr>state := s\<rparr>) = isDestroyed j \<and>
   isDestroyed (d\<lparr>state := s\<rparr>) = isDestroyed d \<and>
   isDestroyed (bv_load b) = isDestroyed b \<and>
   isDestroyed (bv_settle mem out b) = isDestroyed b \<and>
   isDestroyed (bv_unload b) = isDestroyed b \<and>
   isDestroyed (img_load i) = isDestroyed i \<and>
   isDestroyed (snd (img_settle_bufferView iout i)) = isDestroyed i \<and>
   isDestroyed (img_settle_image pout i) = isDestroyed i \<and>
   isDestroyed (img_otherwise_uri iu e i) = isDestroyed i \<and>
   isDestroyed (img_unload i) = isDestroyed i \<and>
   isDestroyed (json_load j) = isDestroyed j \<and>
   isDestroyed (snd (json_then_fetched ab j)) = isDestroyed j \<and>
   isDestroyed (upgradeVersion_buffers bs j) = isDestroyed j \<and>
   isDestroyed (loadEmbeddedBuffers g j) = isDestroyed j \<and>
   isDestroyed (json_then_processed og j) = isDestroyed j \<and>
   isDestroyed (json_otherwise e j) = isDestroyed j \<and>
   isDestroyed (json_unload j) = isDestroyed j \<and>
   isDestroyed (draco_load d) = isDestroyed d \<and>
   isDestroyed (draco_then_bufferView ta d) = isDestroyed d \<and>
   isDestroyed (draco_handleError e d) = isDestroyed d \<and>
   isDestroyed (draco_update d) = isDestroyed d \<and>
   isDestroyed (draco_decode_settles dp d) = isDestroyed d \<and>
   isDestroyed (draco_unload d) = isDestroyed d \<and>
   isDestroyed (bv_destroy b) = True \<and>
   isDestroyed (img_destroy i) = True \<and>
   isDestroyed (json_destroy j) = True \<and>
   isDestroyed (draco_destroy d) = True"
  by (simp add: isDestroyed_def prototype_isDestroyed_def destroyed_destroy destroyed_unload
      destroyed_otherwise destroyed_bv_settle destroyed_img_settle destroyed_json_steps
      destroyed_draco_steps destroyed_draco_decode_settles load_keeps
      GltfBufferViewLoader_new_def GltfImageLoader_new_def GltfJsonLoader_new_def
      GltfDracoLoader_new_def)

end
